theory Spec2Isabelle
  imports Main "HOL-Library.Word"
begin

unbundle bit_operations_syntax

section \<open>Scalar types and the engine's constants\<close>

text \<open>
  \<^verbatim>\<open>search.cpp\<close> computes with \<^verbatim>\<open>Value\<close>, \<^verbatim>\<open>Depth\<close> and \<^verbatim>\<open>Move\<close>, all of them
  plain C++ integers behind an enum. In the engine a score never leaves the interval
  \<open>[-2 * VALUE_INFINITE, 2 * VALUE_INFINITE]\<close> and a ply never exceeds \<^verbatim>\<open>PLY_MAX + 1\<close>;
  on that range no 32-bit operation of the functions below wraps, and the three types
  are \<open>int\<close> (\<open>nat\<close> for the opaque move token). Where the source's signed sums
  would overflow, the model does not follow it.

  The code tests moves for truth (\<^verbatim>\<open>tte->move()\<close>, \<^verbatim>\<open>!excludedMove\<close>) where it
  elsewhere compares with \<^verbatim>\<open>MOVE_NONE\<close>, hence \<^verbatim>\<open>MOVE_NONE\<close> is the token 0.
\<close>

type_synonym Value = int
type_synonym Depth = int
type_synonym Move = nat

definition MOVE_NONE :: Move where
  "MOVE_NONE = 0"

definition VALUE_ZERO :: Value where
  "VALUE_ZERO = 0"

definition VALUE_DRAW :: Value where
  "VALUE_DRAW = 0"

definition DEPTH_ZERO :: Depth where
  "DEPTH_ZERO = 0"

text \<open>
  The enumerators of \<^verbatim>\<open>types.h\<close>, \<^verbatim>\<open>value.h\<close>, \<^verbatim>\<open>depth.h\<close> and \<^verbatim>\<open>move.h\<close> are used by
  \<^verbatim>\<open>search.cpp\<close> but declared in headers outside the file. Every function below takes
  them as one parameter \<open>c\<close>, so that a theorem holds for whatever numbers the headers
  give; the assumptions a theorem needs on them are written in its statement.
\<close>

record engine_consts =
  VALUE_KNOWN_WIN :: Value
  VALUE_MATE :: Value
  VALUE_INFINITE :: Value
  VALUE_NONE :: Value
  VALUE_MATE_IN_PLY_MAX :: Value
  VALUE_MATED_IN_PLY_MAX :: Value
  PLY_MAX :: int
  ONE_PLY :: Depth
  DEPTH_QS_CHECKS :: Depth
  DEPTH_QS_NO_CHECKS :: Depth
  MOVE_NULL :: Move
  PawnValueMidgame :: Value
  PawnValueEndgame :: Value
  RookValueMidgame :: Value
  value_mated_in :: "int \<Rightarrow> Value"

text \<open>
  The numbers of the Stockfish 2.1 headers this engine derives from. They serve only to
  evaluate the functions at concrete inputs; \<^verbatim>\<open>ONE_PLY == 2\<close> is also what the comment
  in \<^verbatim>\<open>init_search()\<close> says.
\<close>

definition sf_consts :: engine_consts where
  "sf_consts =
     \<lparr> VALUE_KNOWN_WIN = 15000, VALUE_MATE = 30000, VALUE_INFINITE = 30001,
       VALUE_NONE = 30002, VALUE_MATE_IN_PLY_MAX = 29900,
       VALUE_MATED_IN_PLY_MAX = - 29900, PLY_MAX = 100, ONE_PLY = 2,
       DEPTH_QS_CHECKS = - 2, DEPTH_QS_NO_CHECKS = - 4,
       MOVE_NULL = 65, PawnValueMidgame = 198, PawnValueEndgame = 258,
       RookValueMidgame = 1270,
       value_mated_in = (\<lambda>ply. - 30000 + ply) \<rparr>"


section \<open>Transposition-table value encoding\<close>

text \<open>
  \<^verbatim>\<open>value_to_tt()\<close>, called before a value is stored: a mate score counted from the
  root becomes one counted from the current ply.
\<close>

definition value_to_tt :: "engine_consts \<Rightarrow> Value \<Rightarrow> int \<Rightarrow> Value" where
  "value_to_tt c v ply =
     (if v \<ge> VALUE_MATE_IN_PLY_MAX c then v + ply
      else if v \<le> VALUE_MATED_IN_PLY_MAX c then v - ply
      else v)"

text \<open>
  \<^verbatim>\<open>value_from_tt()\<close>, called on a value read from the table. The test for
  \<^verbatim>\<open>VALUE_NONE\<close> comes first, before the two mate bands.
\<close>

definition value_from_tt :: "engine_consts \<Rightarrow> Value \<Rightarrow> int \<Rightarrow> Value" where
  "value_from_tt c v ply =
     (if v = VALUE_NONE c then v
      else if v \<ge> VALUE_MATE_IN_PLY_MAX c then v - ply
      else if v \<le> VALUE_MATED_IN_PLY_MAX c then v + ply
      else v)"

text \<open>
  C++ integer division truncates towards zero; \<open>div\<close> on \<open>int\<close> rounds down.
\<close>

definition c_div :: "int \<Rightarrow> int \<Rightarrow> int" where
  "c_div a b = sgn a * sgn b * (\<bar>a\<bar> div \<bar>b\<bar>)"

section \<open>Transposition-table entries\<close>

text \<open>
  Modelled from the spec: \<^verbatim>\<open>tt.h\<close>, which declares \<^verbatim>\<open>ValueType\<close> and \<^verbatim>\<open>TTEntry\<close>, is
  not among the sources. The spec gives the bound kinds as
  \<open>{NONE, UPPER, LOWER, EXACT}\<close> with \<open>LOWER|UPPER == EXACT\<close> bitwise, and the entry's
  fields as best move, value, static eval, static-eval margin, depth and bound kind.
  \<open>type_bits\<close> is the bit pattern of a kind, \<open>type_and\<close> the C test \<^verbatim>\<open>(t & m)\<close>.
\<close>

datatype ValueType =
  VALUE_TYPE_NONE | VALUE_TYPE_UPPER | VALUE_TYPE_LOWER | VALUE_TYPE_EXACT

fun type_bits :: "ValueType \<Rightarrow> nat" where
  "type_bits VALUE_TYPE_NONE = 0"
| "type_bits VALUE_TYPE_UPPER = 1"
| "type_bits VALUE_TYPE_LOWER = 2"
| "type_bits VALUE_TYPE_EXACT = 3"

definition type_and :: "ValueType \<Rightarrow> ValueType \<Rightarrow> bool" where
  "type_and t m = (type_bits t AND type_bits m \<noteq> 0)"

record TTEntry =
  tte_value :: Value
  tte_type :: ValueType
  tte_depth :: Depth
  tte_move :: Move
  tte_static_value :: Value
  tte_static_value_margin :: Value

text \<open>\<^verbatim>\<open>ok_to_use_TT()\<close>: may a stored score cut the node off.\<close>

definition ok_to_use_TT :: "engine_consts \<Rightarrow> TTEntry \<Rightarrow> Depth \<Rightarrow> Value \<Rightarrow> int \<Rightarrow> bool" where
  "ok_to_use_TT c tte depth beta ply =
     (let v = value_from_tt c (tte_value tte) ply in
        (tte_depth tte \<ge> depth
         \<or> v \<ge> max (VALUE_MATE_IN_PLY_MAX c) beta
         \<or> v < min (VALUE_MATED_IN_PLY_MAX c) beta)
      \<and> ((type_and (tte_type tte) VALUE_TYPE_LOWER \<and> v \<ge> beta)
         \<or> (type_and (tte_type tte) VALUE_TYPE_UPPER \<and> v < beta)))"

text \<open>
  The same decision in the words of the spec: depth sufficient or the score outside the
  ordinary band, and the bound kind on the correct side of beta. The ordinary band is
  where neither direction of the value encoding shifts a score.
\<close>

definition outside_ordinary_band :: "engine_consts \<Rightarrow> Value \<Rightarrow> bool" where
  "outside_ordinary_band c v =
     (v \<ge> VALUE_MATE_IN_PLY_MAX c \<or> v \<le> VALUE_MATED_IN_PLY_MAX c)"

definition ok_to_use_TT_spec ::
  "engine_consts \<Rightarrow> TTEntry \<Rightarrow> Depth \<Rightarrow> Value \<Rightarrow> int \<Rightarrow> bool" where
  "ok_to_use_TT_spec c tte depth beta ply =
     (let v = value_from_tt c (tte_value tte) ply in
        (tte_depth tte \<ge> depth \<or> outside_ordinary_band c v)
      \<and> ((type_and (tte_type tte) VALUE_TYPE_LOWER \<and> v \<ge> beta)
         \<or> (type_and (tte_type tte) VALUE_TYPE_UPPER \<and> v < beta)))"

text \<open>\<^verbatim>\<open>refine_eval()\<close>: the stored score where its bound improves on the static one.\<close>

definition refine_eval :: "engine_consts \<Rightarrow> TTEntry \<Rightarrow> Value \<Rightarrow> int \<Rightarrow> Value" where
  "refine_eval c tte defaultEval ply =
     (let v = value_from_tt c (tte_value tte) ply in
      if (type_and (tte_type tte) VALUE_TYPE_LOWER \<and> v \<ge> defaultEval)
         \<or> (type_and (tte_type tte) VALUE_TYPE_UPPER \<and> v < defaultEval)
      then v else defaultEval)"

text \<open>
  Both \<^verbatim>\<open>search()\<close> and \<^verbatim>\<open>qsearch()\<close> take the move of a probed entry as \<^verbatim>\<open>ttMove\<close>
  and drop the entry when that move is not pseudo-legal. The pair is the new
  \<^verbatim>\<open>(ttMove, tte)\<close>; \<open>None\<close> is the null pointer.
\<close>

definition tt_move_of ::
  "(Move \<Rightarrow> bool) \<Rightarrow> TTEntry option \<Rightarrow> Move \<times> TTEntry option" where
  "tt_move_of move_is_pseudo_legal tte =
     (case tte of
        Some e \<Rightarrow>
          if tte_move e \<noteq> MOVE_NONE
          then (if move_is_pseudo_legal (tte_move e) then (tte_move e, Some e)
                else (MOVE_NONE, None))
          else (MOVE_NONE, Some e)
      | None \<Rightarrow> (MOVE_NONE, None))"

text \<open>
  The test both functions apply next: out of check an entry must carry a static value
  and a margin, in check it must carry neither.
\<close>

definition static_value_mismatch :: "engine_consts \<Rightarrow> bool \<Rightarrow> TTEntry \<Rightarrow> bool" where
  "static_value_mismatch c inCheck e =
     ((\<not> inCheck \<and> (tte_static_value e = VALUE_NONE c
                     \<or> tte_static_value_margin e = VALUE_NONE c))
      \<or> (inCheck \<and> (tte_static_value e \<noteq> VALUE_NONE c
                    \<or> tte_static_value_margin e \<noteq> VALUE_NONE c)))"

definition drop_mismatched ::
  "engine_consts \<Rightarrow> bool \<Rightarrow> TTEntry option \<Rightarrow> TTEntry option" where
  "drop_mismatched c inCheck tte =
     (case tte of
        Some e \<Rightarrow> if static_value_mismatch c inCheck e then None else Some e
      | None \<Rightarrow> None)"

section \<open>The main search: one node of \<^verbatim>\<open>search()\<close>\<close>

text \<open>
  \<^verbatim>\<open>search<PvNode, SpNode, Root>()\<close> is modelled step by step on the locals of one call.
  The record holds the template parameters and the locals the modelled steps read or
  write (\<open>sn_ply\<close> is \<^verbatim>\<open>ss->ply\<close>, \<open>sn_eval\<close> and \<open>sn_evalMargin\<close> are \<^verbatim>\<open>ss->eval\<close> and
  \<^verbatim>\<open>ss->evalMargin\<close>). Whatever a step asks of the position, of the move picker or of
  a recursive call is a parameter of the step. A step that can leave the function
  returns \<open>Inl v\<close> for \<^verbatim>\<open>return v\<close> and \<open>Inr n\<close> to go on with the locals \<open>n\<close>. The
  writes to the transposition table, to the history and to the killer slots do not
  feed back into the node's own steps and are left out.
\<close>

record search_node =
  sn_PvNode :: bool
  sn_SpNode :: bool
  sn_Root :: bool
  sn_depth :: Depth
  sn_alpha :: Value
  sn_beta :: Value
  sn_oldAlpha :: Value
  sn_inCheck :: bool
  sn_ply :: int
  sn_excludedMove :: Move
  sn_ttMove :: Move
  sn_tte :: "TTEntry option"
  sn_eval :: Value
  sn_evalMargin :: Value
  sn_refinedValue :: Value
  sn_bestValue :: Value
  sn_bestMove :: Move
  sn_moveCount :: int

text \<open>
  Step 4, first half: \<open>probe\<close> is the result of \<^verbatim>\<open>TT.probe(posKey)\<close>, \<open>rml0\<close> is
  \<^verbatim>\<open>Rml[0].pv[0]\<close>. At the root \<^verbatim>\<open>ttMove\<close> is the first root move and the entry is
  kept as probed; elsewhere \<open>tt_move_of\<close> applies. Then the entry is dropped when its
  static value does not fit the in-check status. \<^verbatim>\<open>ttMove\<close> is assigned before that
  test and not again.
\<close>

definition search_tt_lookup ::
  "engine_consts \<Rightarrow> (Move \<Rightarrow> bool) \<Rightarrow> Move \<Rightarrow> TTEntry option \<Rightarrow> search_node \<Rightarrow> search_node" where
  "search_tt_lookup c move_is_pseudo_legal rml0 probe n =
     (let (ttMove, tte) =
            (if sn_Root n then (rml0, probe) else tt_move_of move_is_pseudo_legal probe)
      in n\<lparr>sn_ttMove := ttMove, sn_tte := drop_mismatched c (sn_inCheck n) tte\<rparr>)"

text \<open>
  Step 4, second half: the cutoff. A PV node wants an exact score of sufficient depth
  strictly inside the window, a non-PV node asks \<^verbatim>\<open>ok_to_use_TT()\<close>.
\<close>

definition search_tt_cutoff :: "engine_consts \<Rightarrow> search_node \<Rightarrow> Value + search_node" where
  "search_tt_cutoff c n =
     (case sn_tte n of
        Some e \<Rightarrow>
          if \<not> sn_Root n \<and> tte_value e \<noteq> VALUE_NONE c
             \<and> (if sn_PvNode n
                 then tte_depth e \<ge> sn_depth n \<and> tte_type e = VALUE_TYPE_EXACT
                      \<and> tte_value e > sn_alpha n \<and> tte_value e < sn_beta n
                 else ok_to_use_TT c e (sn_depth n) (sn_beta n) (sn_ply n))
          then Inl (value_from_tt c (tte_value e) (sn_ply n))
          else Inr n
      | None \<Rightarrow> Inr n)"

text \<open>
  Step 5: in check there is no static evaluation; otherwise it is the entry's, refined
  by the entry's score when it has one, or the evaluator's result \<open>evaluate\<close>
  (value and margin).
\<close>

definition search_static_eval ::
  "engine_consts \<Rightarrow> Value \<times> Value \<Rightarrow> search_node \<Rightarrow> search_node" where
  "search_static_eval c evaluate n =
     (if sn_inCheck n then n\<lparr>sn_eval := VALUE_NONE c, sn_evalMargin := VALUE_NONE c\<rparr>
      else
        (case sn_tte n of
           Some e \<Rightarrow>
             n\<lparr>sn_eval := tte_static_value e,
               sn_evalMargin := tte_static_value_margin e,
               sn_refinedValue :=
                 (if tte_value e \<noteq> VALUE_NONE c
                  then refine_eval c e (tte_static_value e) (sn_ply n)
                  else tte_static_value e)\<rparr>
         | None \<Rightarrow>
             n\<lparr>sn_eval := fst evaluate, sn_evalMargin := snd evaluate,
               sn_refinedValue := fst evaluate\<rparr>))"

text \<open>Steps 4 and 5 in sequence, as \<^verbatim>\<open>search()\<close> runs them at a node that is no split point.\<close>

definition search_probe ::
  "engine_consts \<Rightarrow> (Move \<Rightarrow> bool) \<Rightarrow> Move \<Rightarrow> Value \<times> Value \<Rightarrow> TTEntry option
     \<Rightarrow> search_node \<Rightarrow> Value + search_node" where
  "search_probe c move_is_pseudo_legal rml0 evaluate probe n =
     (case search_tt_cutoff c (search_tt_lookup c move_is_pseudo_legal rml0 probe n) of
        Inl v \<Rightarrow> Inl v
      | Inr n' \<Rightarrow> Inr (search_static_eval c evaluate n'))"

subsection \<open>Step 6: razoring\<close>

definition RazorDepth :: "engine_consts \<Rightarrow> Depth" where
  "RazorDepth c = 4 * ONE_PLY c"

definition razor_margin :: "Depth \<Rightarrow> Value" where
  "razor_margin d = 0x200 + 0x10 * d"

text \<open>
  \<open>razoring_guard\<close> is the condition of the \<^verbatim>\<open>if\<close>; \<open>has_pawn_on_7th\<close> is
  \<^verbatim>\<open>pos.has_pawn_on_7th(pos.side_to_move())\<close>.
\<close>

definition razoring_guard :: "engine_consts \<Rightarrow> bool \<Rightarrow> search_node \<Rightarrow> bool" where
  "razoring_guard c has_pawn_on_7th n =
     (\<not> sn_PvNode n
      \<and> sn_depth n < RazorDepth c
      \<and> \<not> sn_inCheck n
      \<and> sn_refinedValue n + razor_margin (sn_depth n) < sn_beta n
      \<and> sn_ttMove n = MOVE_NONE
      \<and> sn_excludedMove n = MOVE_NONE
      \<and> \<bar>sn_beta n\<bar> < VALUE_MATE_IN_PLY_MAX c
      \<and> \<not> has_pawn_on_7th)"

text \<open>
  \<open>qs alpha beta depth\<close> is \<^verbatim>\<open>qsearch<NonPV>(pos, ss, alpha, beta, depth)\<close> at this
  node. The step yields the quiescence searches it asked for, as
  \<open>(alpha, beta, depth)\<close>, and \<open>Some v\<close> when it returns \<open>v\<close> from \<^verbatim>\<open>search()\<close>.
\<close>

definition razoring ::
  "engine_consts \<Rightarrow> (Value \<Rightarrow> Value \<Rightarrow> Depth \<Rightarrow> Value) \<Rightarrow> bool \<Rightarrow> search_node
     \<Rightarrow> (Value \<times> Value \<times> Depth) list \<times> Value option" where
  "razoring c qs has_pawn_on_7th n =
     (if razoring_guard c has_pawn_on_7th n
      then
        (let rbeta = sn_beta n - razor_margin (sn_depth n);
             v = qs (rbeta - 1) rbeta DEPTH_ZERO
         in ([(rbeta - 1, rbeta, DEPTH_ZERO)], if v < rbeta then Some v else None))
      else ([], None))"

subsection \<open>Steps 10 to 19: the move loop and the mate or stalemate test\<close>

text \<open>
  The locals at function entry, before step 1: \<^verbatim>\<open>moveCount = 0\<close>, the three values at
  \<^verbatim>\<open>-VALUE_INFINITE\<close>, \<^verbatim>\<open>oldAlpha = alpha\<close>, \<^verbatim>\<open>ss->ply = (ss-1)->ply + 1\<close>.
\<close>

definition search_enter ::
  "engine_consts \<Rightarrow> bool \<Rightarrow> bool \<Rightarrow> bool \<Rightarrow> Value \<Rightarrow> Value \<Rightarrow> Depth \<Rightarrow> bool \<Rightarrow> int \<Rightarrow> Move
     \<Rightarrow> search_node" where
  "search_enter c PvNode SpNode Root alpha beta depth inCheck parent_ply excludedMove =
     \<lparr> sn_PvNode = PvNode, sn_SpNode = SpNode, sn_Root = Root, sn_depth = depth,
       sn_alpha = alpha, sn_beta = beta, sn_oldAlpha = alpha, sn_inCheck = inCheck,
       sn_ply = parent_ply + 1, sn_excludedMove = excludedMove, sn_ttMove = MOVE_NONE,
       sn_tte = None, sn_eval = VALUE_ZERO, sn_evalMargin = VALUE_ZERO,
       sn_refinedValue = - VALUE_INFINITE c, sn_bestValue = - VALUE_INFINITE c,
       sn_bestMove = MOVE_NONE, sn_moveCount = 0 \<rparr>"

text \<open>
  One move handed out by the move picker, with what the head of the loop body asks
  about it: \<open>pm_cutoff_occurred\<close> is \<^verbatim>\<open>Threads[threadID].cutoff_occurred()\<close> as the loop
  condition reads it after fetching the move; \<open>pm_excluded_kind\<close> is the rest of the
  exclusion test beside \<^verbatim>\<open>move == excludedMove\<close> (the piece-kind token
  \<^verbatim>\<open>Move(65 << (type - 1))\<close>, or a non-king move to the square the move two plies
  back left); \<open>pm_gives_check\<close> is \<^verbatim>\<open>pos.move_gives_check(move, ci)\<close>. \<open>pm_body\<close>
  is the remainder of the body, steps 11 to 18, on the locals it is entered with: the
  new \<^verbatim>\<open>alpha\<close>, \<^verbatim>\<open>bestValue\<close> and \<^verbatim>\<open>bestMove\<close>, and whether the root's
  \<^verbatim>\<open>if (StopRequest) break\<close> was taken. None of those steps assigns \<^verbatim>\<open>moveCount\<close>.
\<close>

record picked_move =
  pm_move :: Move
  pm_cutoff_occurred :: bool
  pm_excluded_kind :: bool
  pm_gives_check :: bool
  pm_body :: "search_node \<Rightarrow> Value \<times> Value \<times> Move \<times> bool"

text \<open>
  The \<^verbatim>\<open>while\<close> loop of step 10 at a node that is no split point. The list ends where
  the picker returns \<^verbatim>\<open>MOVE_NONE\<close>. An excluded move is skipped before
  \<^verbatim>\<open>moveCount++\<close>; a checking move under an exclusion is skipped after
  \<^verbatim>\<open>moveCount++\<close> and \<^verbatim>\<open>moveCount--\<close>, which leaves the counter as it was.
\<close>

fun move_loop :: "picked_move list \<Rightarrow> search_node \<Rightarrow> search_node" where
  "move_loop [] n = n"
| "move_loop (m # ms) n =
     (if \<not> sn_bestValue n < sn_beta n then n
      else if pm_cutoff_occurred m then n
      else if sn_excludedMove n \<noteq> MOVE_NONE
              \<and> (pm_move m = sn_excludedMove n \<or> pm_excluded_kind m)
      then move_loop ms n
      else if sn_excludedMove n \<noteq> MOVE_NONE \<and> pm_gives_check m
      then move_loop ms n
      else
        (let n1 = n\<lparr>sn_moveCount := sn_moveCount n + 1\<rparr> in
         case pm_body m n1 of
           (alpha, bestValue, bestMove, stopped) \<Rightarrow>
             (let n2 = n1\<lparr>sn_alpha := alpha, sn_bestValue := bestValue,
                           sn_bestMove := bestMove\<rparr>
              in if stopped then n2 else move_loop ms n2)))"

text \<open>
  Step 19 and the final \<^verbatim>\<open>return bestValue\<close>: with no move counted, a node that is no
  split point returns \<^verbatim>\<open>oldAlpha\<close> under an exclusion, the mated score in check and the
  draw score otherwise.
\<close>

definition search_finish :: "engine_consts \<Rightarrow> search_node \<Rightarrow> Value" where
  "search_finish c n =
     (if \<not> sn_SpNode n \<and> sn_moveCount n = 0
      then (if sn_excludedMove n \<noteq> MOVE_NONE then sn_oldAlpha n
            else if sn_inCheck n then value_mated_in c (sn_ply n)
            else VALUE_DRAW)
      else sn_bestValue n)"

definition search_moves :: "engine_consts \<Rightarrow> picked_move list \<Rightarrow> search_node \<Rightarrow> Value" where
  "search_moves c ms n = search_finish c (move_loop ms n)"

section \<open>The quiescence search: one node of \<^verbatim>\<open>qsearch()\<close>\<close>

definition FutilityMarginQS :: Value where
  "FutilityMarginQS = 0x80"

text \<open>
  A move the picker hands out at a quiescence node, with what the loop body asks the
  position about it. \<open>qm_queen_contact\<close> and \<open>qm_new_victims\<close> are the facts
  \<^verbatim>\<open>check_is_dangerous()\<close> computes from bitboards: whether a queen gives the check from
  a square next to the king, and the endgame values of the enemy pieces the moved piece
  attacks from its new square only, in the order \<^verbatim>\<open>pop_1st_bit\<close> yields them.
  \<open>qm_child alpha beta depth\<close> is the recursive call
  \<^verbatim>\<open>qsearch<PvNode>(pos, ss+1, alpha, beta, depth)\<close> on the position after the move.
\<close>

record qmove =
  qm_move :: Move
  qm_gives_check :: bool
  qm_is_promotion :: bool
  qm_is_passed_pawn_push :: bool
  qm_victim_value :: Value
  qm_is_ep :: bool
  qm_see :: int
  qm_see_sign :: int
  qm_is_capture :: bool
  qm_is_capture_or_promotion :: bool
  qm_queen_contact :: bool
  qm_new_victims :: "Value list"
  qm_child :: "Value \<Rightarrow> Value \<Rightarrow> Depth \<Rightarrow> Value"

text \<open>
  The arguments of a call and what it asks of its surroundings: \<open>qi_parent_ply\<close> is
  \<^verbatim>\<open>(ss-1)->ply\<close>, \<open>qi_probe\<close> the result of \<^verbatim>\<open>TT.probe(pos.get_key())\<close>, \<open>qi_evaluate\<close>
  the value and margin of \<^verbatim>\<open>evaluate()\<close>, \<open>qi_non_pawn_material\<close> that of the side to
  move, \<open>qi_prev_currentMove\<close> is \<^verbatim>\<open>(ss-1)->currentMove\<close>, \<open>qi_mateKiller\<close> is
  \<^verbatim>\<open>ss->mateKiller\<close> on entry, \<open>qi_king_on_border\<close> says whether the enemy king stands
  on the border, \<open>qi_moves\<close> is what the move picker yields before \<^verbatim>\<open>MOVE_NONE\<close>.
\<close>

record qsearch_in =
  qi_PvNode :: bool
  qi_alpha :: Value
  qi_beta :: Value
  qi_depth :: Depth
  qi_parent_ply :: int
  qi_is_draw :: bool
  qi_inCheck :: bool
  qi_probe :: "TTEntry option"
  qi_move_is_pseudo_legal :: "Move \<Rightarrow> bool"
  qi_is_stalemate :: bool
  qi_evaluate :: "Value \<times> Value"
  qi_non_pawn_material :: Value
  qi_can_castle :: bool
  qi_prev_currentMove :: Move
  qi_mateKiller :: Move
  qi_king_on_border :: bool
  qi_moves :: "qmove list"

text \<open>The locals of \<^verbatim>\<open>qsearch()\<close> when the move loop starts, and as the loop changes them.\<close>

record qs_state =
  qs_alpha :: Value
  qs_bestValue :: Value
  qs_bestMove :: Move
  qs_mateKiller :: Move
  qs_ttMove :: Move
  qs_tte :: "TTEntry option"
  qs_eval :: Value
  qs_evalMargin :: Value
  qs_futilityBase :: Value
  qs_enoughMaterial :: bool

definition qsearch_ply :: "qsearch_in \<Rightarrow> int" where
  "qsearch_ply q = qi_parent_ply q + 1"

definition qsearch_ttDepth :: "engine_consts \<Rightarrow> qsearch_in \<Rightarrow> Depth" where
  "qsearch_ttDepth c q =
     (if qi_inCheck q \<or> qi_depth q \<ge> DEPTH_QS_CHECKS c then DEPTH_QS_CHECKS c
      else DEPTH_QS_NO_CHECKS c)"

text \<open>
  The probe: \<^verbatim>\<open>ttMove\<close> from the entry's move, then the entry dropped when its static
  value does not fit the in-check status.
\<close>

definition qsearch_tt_lookup :: "engine_consts \<Rightarrow> qsearch_in \<Rightarrow> Move \<times> TTEntry option" where
  "qsearch_tt_lookup c q =
     (let (ttMove, tte) = tt_move_of (qi_move_is_pseudo_legal q) (qi_probe q)
      in (ttMove, drop_mismatched c (qi_inCheck q) tte))"

text \<open>The cutoff from the table, taken at non-PV nodes only: \<open>Some v\<close> is \<^verbatim>\<open>return v\<close>.\<close>

definition qsearch_tt_cutoff :: "engine_consts \<Rightarrow> qsearch_in \<Rightarrow> Value option" where
  "qsearch_tt_cutoff c q =
     (case snd (qsearch_tt_lookup c q) of
        Some e \<Rightarrow>
          if \<not> qi_PvNode q \<and> tte_value e \<noteq> VALUE_NONE c
             \<and> ok_to_use_TT c e (qsearch_ttDepth c q) (qi_beta q) (qsearch_ply q)
          then Some (value_from_tt c (tte_value e) (qsearch_ply q))
          else None
      | None \<Rightarrow> None)"

text \<open>
  The static evaluation. In check there is none and \<^verbatim>\<open>bestValue\<close> starts at
  \<^verbatim>\<open>-VALUE_INFINITE\<close>. Out of check a PV node first tests for stalemate; the value is
  the entry's or the evaluator's; a value of at least beta is returned at once (stand
  pat), otherwise a PV node raises alpha to it.
\<close>

definition qsearch_static_eval ::
  "engine_consts \<Rightarrow> qsearch_in \<Rightarrow> Move \<Rightarrow> TTEntry option \<Rightarrow> Value + qs_state" where
  "qsearch_static_eval c q ttMove tte =
     (if qi_inCheck q
      then Inr \<lparr> qs_alpha = qi_alpha q, qs_bestValue = - VALUE_INFINITE c,
                 qs_bestMove = MOVE_NONE, qs_mateKiller = qi_mateKiller q,
                 qs_ttMove = ttMove, qs_tte = tte, qs_eval = VALUE_NONE c,
                 qs_evalMargin = VALUE_NONE c, qs_futilityBase = - VALUE_INFINITE c,
                 qs_enoughMaterial = False \<rparr>
      else if qi_PvNode q \<and> qi_is_stalemate q then Inl VALUE_DRAW
      else
        (let (eval, evalMargin, bestValue) =
               (case tte of
                  Some e \<Rightarrow>
                    (tte_static_value e, tte_static_value_margin e,
                     if tte_value e \<noteq> VALUE_NONE c
                        \<and> (\<not> qi_PvNode q \<or> tte_type e = VALUE_TYPE_EXACT
                            \<or> \<bar>tte_value e\<bar> \<ge> VALUE_KNOWN_WIN c)
                     then refine_eval c e (tte_static_value e) (qsearch_ply q)
                     else tte_static_value e)
                | None \<Rightarrow> (fst (qi_evaluate q), snd (qi_evaluate q), fst (qi_evaluate q)))
         in if bestValue \<ge> qi_beta q then Inl bestValue
            else Inr \<lparr> qs_alpha = (if qi_PvNode q \<and> bestValue > qi_alpha q
                                     then bestValue else qi_alpha q),
                       qs_bestValue = bestValue, qs_bestMove = MOVE_NONE,
                       qs_mateKiller = qi_mateKiller q, qs_ttMove = ttMove, qs_tte = tte,
                       qs_eval = eval, qs_evalMargin = evalMargin,
                       qs_futilityBase = eval + evalMargin + FutilityMarginQS,
                       qs_enoughMaterial =
                         (qi_non_pawn_material q > RookValueMidgame c) \<rparr>))"

text \<open>
  Everything before the move loop: \<open>Inl v\<close> when the call returns \<open>v\<close> without
  looking at a move, \<open>Inr st\<close> with the locals the loop starts from.
\<close>

definition qsearch_entry :: "engine_consts \<Rightarrow> qsearch_in \<Rightarrow> Value + qs_state" where
  "qsearch_entry c q =
     (if qsearch_ply q > PLY_MAX c \<or> qi_is_draw q then Inl VALUE_DRAW
      else
        (case qsearch_tt_cutoff c q of
           Some v \<Rightarrow> Inl v
         | None \<Rightarrow>
             qsearch_static_eval c q (fst (qsearch_tt_lookup c q))
               (snd (qsearch_tt_lookup c q))))"

text \<open>\<^verbatim>\<open>check_is_dangerous()\<close>, on the facts of the move.\<close>

definition check_is_dangerous :: "bool \<Rightarrow> qmove \<Rightarrow> Value \<Rightarrow> Value \<Rightarrow> bool" where
  "check_is_dangerous king_on_border m futilityBase beta =
     (if king_on_border then True
      else if qm_queen_contact m then True
      else list_ex (\<lambda>v. futilityBase + v \<ge> beta) (qm_new_victims m))"

text \<open>
  The body of the move loop for one move: the futility test with its two exits, the
  negative-SEE test, the useless-check test, then the recursive search of the move and
  the update of \<^verbatim>\<open>bestValue\<close>, \<^verbatim>\<open>alpha\<close>, \<^verbatim>\<open>bestMove\<close> and the mate killer.
\<close>

definition qsearch_move :: "engine_consts \<Rightarrow> qsearch_in \<Rightarrow> qmove \<Rightarrow> qs_state \<Rightarrow> qs_state" where
  "qsearch_move c q m st =
     (let futility =
            (\<not> qi_PvNode q \<and> \<not> qi_inCheck q \<and> \<not> qm_gives_check m
             \<and> qm_move m \<noteq> qs_ttMove st \<and> qs_enoughMaterial st
             \<and> \<not> qm_is_promotion m \<and> \<not> qm_is_passed_pawn_push m);
          futilityValue =
            qs_futilityBase st + qm_victim_value m
            + (if qm_is_ep m then PawnValueEndgame c else VALUE_ZERO);
          evasionPrunable =
            (qi_inCheck q \<and> qs_bestValue st > VALUE_MATED_IN_PLY_MAX c
             \<and> \<not> qm_is_capture m \<and> \<not> qi_can_castle q)
      in
      if futility \<and> futilityValue < qi_beta q
      then (if futilityValue > qs_bestValue st then st\<lparr>qs_bestValue := futilityValue\<rparr>
            else st)
      else if futility \<and> qs_futilityBase st < qi_beta q \<and> qm_see m \<le> 0 then st
      else if \<not> qi_PvNode q \<and> (\<not> qi_inCheck q \<or> evasionPrunable)
              \<and> qm_move m \<noteq> qs_ttMove st \<and> \<not> qm_is_promotion m \<and> qm_see_sign m < 0
      then st
      else if \<not> qi_PvNode q \<and> \<not> qi_inCheck q \<and> qm_gives_check m
              \<and> qm_move m \<noteq> qs_ttMove st \<and> qm_move m \<noteq> qs_mateKiller st
              \<and> qi_prev_currentMove q \<noteq> MOVE_NULL c
              \<and> \<not> qm_is_capture_or_promotion m
              \<and> qs_eval st + c_div (PawnValueMidgame c) 6 < qi_beta q
              \<and> \<not> check_is_dangerous (qi_king_on_border q) m (qs_futilityBase st) (qi_beta q)
      then st
      else
        (let v = - qm_child m (- qi_beta q) (- qs_alpha st) (qi_depth q - ONE_PLY c) in
         if v > qs_bestValue st
         then (if v > qs_alpha st
               then st\<lparr>qs_bestValue := v, qs_alpha := v, qs_bestMove := qm_move m,
                       qs_mateKiller :=
                         (if v \<ge> VALUE_MATE_IN_PLY_MAX c then qm_move m
                          else qs_mateKiller st)\<rparr>
               else st\<lparr>qs_bestValue := v\<rparr>)
         else st))"

text \<open>The \<^verbatim>\<open>while (alpha < beta && (move = mp.get_next_move()) != MOVE_NONE)\<close> loop.\<close>

fun qsearch_moves ::
  "engine_consts \<Rightarrow> qsearch_in \<Rightarrow> qmove list \<Rightarrow> qs_state \<Rightarrow> qs_state" where
  "qsearch_moves c q [] st = st"
| "qsearch_moves c q (m # ms) st =
     (if qs_alpha st < qi_beta q then qsearch_moves c q ms (qsearch_move c q m st)
      else st)"

text \<open>
  After the loop: in check with \<^verbatim>\<open>bestValue\<close> still at \<^verbatim>\<open>-VALUE_INFINITE\<close> it is
  checkmate; otherwise \<^verbatim>\<open>bestValue\<close> is returned.
\<close>

definition qsearch_exit :: "engine_consts \<Rightarrow> qsearch_in \<Rightarrow> qs_state \<Rightarrow> Value" where
  "qsearch_exit c q st =
     (if qi_inCheck q \<and> qs_bestValue st = - VALUE_INFINITE c
      then value_mated_in c (qsearch_ply q)
      else qs_bestValue st)"

definition qsearch :: "engine_consts \<Rightarrow> qsearch_in \<Rightarrow> Value" where
  "qsearch c q =
     (case qsearch_entry c q of
        Inl v \<Rightarrow> v
      | Inr st \<Rightarrow> qsearch_exit c q (qsearch_moves c q (qi_moves q) st))"

section \<open>The iterative deepening driver\<close>

text \<open>
  What \<^verbatim>\<open>think()\<close> and \<^verbatim>\<open>id_loop()\<close> insert into \<^verbatim>\<open>cout\<close>, operand by operand:
  a string literal, the result of \<^verbatim>\<open>value_to_uci\<close>, of \<^verbatim>\<open>move_to_uci\<close> or of
  \<^verbatim>\<open>speed_to_uci\<close>, or \<^verbatim>\<open>endl\<close>.
\<close>

datatype uci_token =
  Str string | Value_to_uci Value | Move_to_uci Move | Speed_to_uci | Endl

text \<open>
  \<^verbatim>\<open>id_loop()\<close> up to the deepening loop. \<open>rml\<close> is the root move list after
  \<^verbatim>\<open>Rml.init()\<close>, by first moves; \<open>in_check\<close> is \<^verbatim>\<open>pos.in_check()\<close>. The result is the
  output, the returned best move and \<^verbatim>\<open>*ponderMove\<close>, which is set to \<^verbatim>\<open>MOVE_NONE\<close>
  before the list is built. \<open>deepening\<close> stands for the same three results of the rest
  of the function, the deepening loop and the skill-level choice, which run only on a
  list that is not empty.
\<close>

definition id_loop ::
  "engine_consts \<Rightarrow> Move list \<Rightarrow> bool \<Rightarrow> uci_token list \<times> Move \<times> Move
     \<Rightarrow> uci_token list \<times> Move \<times> Move" where
  "id_loop c rml in_check deepening =
     (if length rml = 0
      then ([Str ''info depth 0 score '',
             Value_to_uci (if in_check then - VALUE_MATE c else VALUE_DRAW), Endl],
            MOVE_NONE, MOVE_NONE)
      else deepening)"

text \<open>
  The standard output of \<^verbatim>\<open>think()\<close>. \<open>book\<close> is the move the opening book gives when
  \<^verbatim>\<open>OwnBook\<close> is set: with one, \<^verbatim>\<open>think()\<close> answers it and never calls
  \<^verbatim>\<open>id_loop()\<close>. Otherwise the search runs, the node statistics are printed, and the
  best move, followed by the ponder move unless that is \<^verbatim>\<open>MOVE_NONE\<close>. The log file and
  the wait for \<^verbatim>\<open>stop\<close> or \<^verbatim>\<open>ponderhit\<close> on standard input write nothing to \<^verbatim>\<open>cout\<close>.
\<close>

definition think ::
  "engine_consts \<Rightarrow> bool \<Rightarrow> Move \<Rightarrow> Move list \<Rightarrow> bool \<Rightarrow> uci_token list \<times> Move \<times> Move
     \<Rightarrow> uci_token list" where
  "think c OwnBook bookMove rml in_check deepening =
     (if OwnBook \<and> bookMove \<noteq> MOVE_NONE
      then [Str ''bestmove '', Move_to_uci bookMove, Endl]
      else
        (case id_loop c rml in_check deepening of
           (out, bestMove, ponderMove) \<Rightarrow>
             out @ [Str ''info'', Speed_to_uci, Endl]
             @ [Str ''bestmove '', Move_to_uci bestMove]
             @ (if ponderMove \<noteq> MOVE_NONE
                then [Str '' ponder '', Move_to_uci ponderMove] else [])
             @ [Endl]))"

subsection \<open>The aspiration window of one iteration\<close>

text \<open>
  The block under \<^verbatim>\<open>if (MultiPV == 1 && depth >= 5)\<close>, on the triple
  \<^verbatim>\<open>(aspirationDelta, alpha, beta)\<close>. \<open>bestValues\<close> is the array of the earlier
  iterations' values, read at \<open>depth - 1\<close>, \<open>depth - 2\<close> and \<open>depth - 3\<close>.
\<close>

definition aspiration_window ::
  "engine_consts \<Rightarrow> int \<Rightarrow> int \<Rightarrow> (int \<Rightarrow> Value) \<Rightarrow> int \<times> Value \<times> Value
     \<Rightarrow> int \<times> Value \<times> Value" where
  "aspiration_window c MultiPV depth bestValues w =
     (if MultiPV = 1 \<and> depth \<ge> 5
      then
        (let prevDelta1 = bestValues (depth - 1) - bestValues (depth - 2);
             prevDelta2 = bestValues (depth - 2) - bestValues (depth - 3);
             d = min (max (\<bar>prevDelta1\<bar> + c_div \<bar>prevDelta2\<bar> 2) 16) 24;
             aspirationDelta = c_div (d + 7) 8 * 8;
             alpha = max (bestValues (depth - 1) - aspirationDelta) (- VALUE_INFINITE c);
             beta = min (bestValues (depth - 1) + aspirationDelta) (VALUE_INFINITE c)
         in if \<bar>bestValues (depth - 1)\<bar> \<ge> VALUE_KNOWN_WIN c
            then (aspirationDelta, - VALUE_INFINITE c, VALUE_INFINITE c)
            else (aspirationDelta, alpha, beta))
      else w)"

text \<open>The same delta in the words of the spec: clamp, then round up to a multiple of 8.\<close>

definition clamp :: "int \<Rightarrow> int \<Rightarrow> int \<Rightarrow> int" where
  "clamp x lo hi = (if x < lo then lo else if x > hi then hi else x)"

definition is_rounded_up_to_8 :: "int \<Rightarrow> int \<Rightarrow> bool" where
  "is_rounded_up_to_8 x r = (r mod 8 = 0 \<and> x \<le> r \<and> r < x + 8)"

subsection \<open>The aspiration loop of one iteration\<close>

text \<open>
  The globals and locals the \<^verbatim>\<open>do ... while\<close> loop reads and writes; \<open>as_searches\<close>
  counts the calls of \<^verbatim>\<open>search<PV, false, true>\<close>.
\<close>

record asp_state =
  as_value :: Value
  as_alpha :: Value
  as_beta :: Value
  as_aspirationDelta :: int
  as_ValueDraw :: Value
  as_AspirationFailLow :: bool
  as_StopOnPonderhit :: bool
  as_StopRequest :: bool
  as_searches :: nat

text \<open>
  One pass through the body, and whether the loop goes round again. \<open>root_search k
  alpha beta d\<close> is the \<open>k\<close>-th root search of the iteration: its value, and
  \<^verbatim>\<open>StopRequest\<close> and \<^verbatim>\<open>ValueDraw\<close> as it leaves them. A raised \<^verbatim>\<open>StopRequest\<close> breaks
  out at once. The value is then replaced by the previous iteration's when
  \<^verbatim>\<open>LastValue\<close> is set and the two differ by one. A fail high widens beta, a fail low
  widens alpha, each by \<^verbatim>\<open>aspirationDelta\<close>, which then grows by half; only after that
  does \<^verbatim>\<open>while (abs(value) < VALUE_KNOWN_WIN)\<close> decide. A value inside the window
  breaks out. Sorting the root moves, re-inserting the PV into the table and the
  \<^verbatim>\<open>info\<close> line of a fail are left out.
\<close>

definition aspiration_step ::
  "engine_consts \<Rightarrow> (nat \<Rightarrow> Value \<Rightarrow> Value \<Rightarrow> Depth \<Rightarrow> Value \<times> bool \<times> Value) \<Rightarrow> int \<Rightarrow> Value
     \<Rightarrow> (int \<Rightarrow> Value) \<Rightarrow> asp_state \<Rightarrow> asp_state \<times> bool" where
  "aspiration_step c root_search depth LastValue bestValues st =
     (case root_search (as_searches st) (as_alpha st) (as_beta st) (depth * ONE_PLY c) of
        (value0, stop, valueDraw0) \<Rightarrow>
          (let st1 = st\<lparr>as_value := value0, as_StopRequest := stop,
                         as_ValueDraw := valueDraw0,
                         as_searches := Suc (as_searches st)\<rparr>
           in
           if stop then (st1, False)
           else
             (let v = (if LastValue \<noteq> VALUE_NONE c
                          \<and> \<bar>value0 - bestValues (depth - 1)\<bar> = 1
                       then bestValues (depth - 1) else value0);
                  valueDraw =
                    (if depth \<ge> 26 \<and> valueDraw0 = VALUE_ZERO
                        \<and> \<bar>v\<bar> \<ge> 2 * PawnValueMidgame c
                        \<and> (v - bestValues 20 > 16 \<or> v - bestValues 20 < - 16)
                     then v else valueDraw0);
                  st2 = st1\<lparr>as_value := v, as_ValueDraw := valueDraw\<rparr>;
                  delta = as_aspirationDelta st
              in
              if v \<ge> as_beta st
              then (st2\<lparr>as_beta := min (as_beta st + delta) (VALUE_INFINITE c),
                        as_aspirationDelta := delta + c_div delta 2\<rparr>,
                    \<bar>v\<bar> < VALUE_KNOWN_WIN c)
              else if v \<le> as_alpha st
              then (st2\<lparr>as_AspirationFailLow := True, as_StopOnPonderhit := False,
                        as_alpha := max (as_alpha st - delta) (- VALUE_INFINITE c),
                        as_aspirationDelta := delta + c_div delta 2\<rparr>,
                    \<bar>v\<bar> < VALUE_KNOWN_WIN c)
              else (st2, False))))"

text \<open>
  The loop, with a bound on the number of passes: \<open>None\<close> when the bound is used up
  before the loop has ended.
\<close>

fun aspiration_loop ::
  "engine_consts \<Rightarrow> (nat \<Rightarrow> Value \<Rightarrow> Value \<Rightarrow> Depth \<Rightarrow> Value \<times> bool \<times> Value) \<Rightarrow> int \<Rightarrow> Value
     \<Rightarrow> (int \<Rightarrow> Value) \<Rightarrow> nat \<Rightarrow> asp_state \<Rightarrow> asp_state option" where
  "aspiration_loop c root_search depth LastValue bestValues 0 st = None"
| "aspiration_loop c root_search depth LastValue bestValues (Suc fuel) st =
     (case aspiration_step c root_search depth LastValue bestValues st of
        (st', again) \<Rightarrow>
          if again then aspiration_loop c root_search depth LastValue bestValues fuel st'
          else Some st')"

section \<open>Sample inputs\<close>

text \<open>
  Concrete inputs at which the functions are evaluated below: an entry without static
  value, a move handed out by the picker whose search scores 50, a quiescence node in
  check without moves, and the state of the aspiration loop around a previous value of
  100.
\<close>

definition sample_entry :: TTEntry where
  "sample_entry =
     \<lparr> tte_value = 40, tte_type = VALUE_TYPE_LOWER, tte_depth = 20, tte_move = 77,
       tte_static_value = VALUE_NONE sf_consts,
       tte_static_value_margin = VALUE_NONE sf_consts \<rparr>"

definition sample_picked :: picked_move where
  "sample_picked =
     \<lparr> pm_move = 77, pm_cutoff_occurred = False, pm_excluded_kind = False,
       pm_gives_check = False, pm_body = (\<lambda>n. (sn_alpha n, 50, 77, False)) \<rparr>"

definition sample_qnode :: qsearch_in where
  "sample_qnode =
     \<lparr> qi_PvNode = False, qi_alpha = 10, qi_beta = 11, qi_depth = 0, qi_parent_ply = 5,
       qi_is_draw = False, qi_inCheck = True, qi_probe = None,
       qi_move_is_pseudo_legal = (\<lambda>m. True), qi_is_stalemate = False,
       qi_evaluate = (25, 3), qi_non_pawn_material = 3000, qi_can_castle = False,
       qi_prev_currentMove = 12, qi_mateKiller = MOVE_NONE, qi_king_on_border = False,
       qi_moves = [] \<rparr>"

definition sample_asp_state :: asp_state where
  "sample_asp_state =
     \<lparr> as_value = 0, as_alpha = 84, as_beta = 116, as_aspirationDelta = 16,
       as_ValueDraw = 0, as_AspirationFailLow = False, as_StopOnPonderhit = False,
       as_StopRequest = False, as_searches = 0 \<rparr>"

section \<open>Properties of the value encoding\<close>

lemma sf_consts_simps:
  "VALUE_KNOWN_WIN sf_consts = 15000" "VALUE_MATE sf_consts = 30000"
  "VALUE_INFINITE sf_consts = 30001" "VALUE_NONE sf_consts = 30002"
  "VALUE_MATE_IN_PLY_MAX sf_consts = 29900" "VALUE_MATED_IN_PLY_MAX sf_consts = - 29900"
  "PLY_MAX sf_consts = 100" "ONE_PLY sf_consts = 2"
  "DEPTH_QS_CHECKS sf_consts = - 2" "DEPTH_QS_NO_CHECKS sf_consts = - 4"
  "MOVE_NULL sf_consts = 65"
  "PawnValueMidgame sf_consts = 198" "PawnValueEndgame sf_consts = 258"
  "RookValueMidgame sf_consts = 1270"
  "value_mated_in sf_consts ply = - 30000 + ply"
  by (simp_all add: sf_consts_def)

text \<open>
  The test for the sentinel in \<^verbatim>\<open>value_from_tt()\<close> matters only for a sentinel in one
  of the mate bands: strictly between the two thresholds it changes nothing.
\<close>

lemma value_from_tt_guard_idle:
  assumes "VALUE_MATED_IN_PLY_MAX c < VALUE_NONE c"
    and "VALUE_NONE c < VALUE_MATE_IN_PLY_MAX c"
  shows "value_from_tt c v ply =
           (if v \<ge> VALUE_MATE_IN_PLY_MAX c then v - ply
            else if v \<le> VALUE_MATED_IN_PLY_MAX c then v + ply
            else v)"
  using assms by (simp add: value_from_tt_def)



text \<open>
  With the sentinel inside the upper mate band the value one below it is stored, at
  ply 1, as the sentinel and read back as the sentinel. Such a value lies in
  \<open>[-VALUE_MATE, VALUE_MATE]\<close> only when the sentinel is within \<^verbatim>\<open>PLY_MAX\<close> of
  \<^verbatim>\<open>VALUE_MATE\<close>, and it is above every score \<^verbatim>\<open>search()\<close> and \<^verbatim>\<open>qsearch()\<close> pass to
  \<^verbatim>\<open>value_to_tt()\<close> at that ply.
\<close>

lemma roundtrip_breaks_below_NONE:
  assumes "VALUE_MATE_IN_PLY_MAX c < VALUE_NONE c"
  shows "value_from_tt c (value_to_tt c (VALUE_NONE c - 1) 1) 1 \<noteq> VALUE_NONE c - 1"
  using assms by (simp add: value_to_tt_def value_from_tt_def)



text \<open>
  Claim C2, as stated: \<^verbatim>\<open>value_to_tt()\<close> never shifts the sentinel. It does: the
  function has no case for \<^verbatim>\<open>VALUE_NONE\<close>, which lies above the upper mate band's
  threshold and gets the ply added.
\<close>

theorem C2_sentinel_counterexample:
  "value_to_tt sf_consts (VALUE_NONE sf_consts) 1 \<noteq> VALUE_NONE sf_consts"
  by (simp add: value_to_tt_def sf_consts_simps)

text \<open>
  Claim C2, amended: \<^verbatim>\<open>value_to_tt(v, ply)\<close> adds the ply to a value of at least
  \<^verbatim>\<open>VALUE_MATE_IN_PLY_MAX\<close>, subtracts it from a value of at most
  \<^verbatim>\<open>VALUE_MATED_IN_PLY_MAX\<close> and leaves every value between the two unchanged. The
  sentinel \<^verbatim>\<open>VALUE_NONE\<close>, not below the upper threshold, is stored as
  \<^verbatim>\<open>VALUE_NONE + ply\<close>; the direction that never shifts it is the reading one,
  \<^verbatim>\<open>value_from_tt(VALUE_NONE, ply) == VALUE_NONE\<close>.
\<close>

theorem C2_value_to_tt:
  assumes "VALUE_MATED_IN_PLY_MAX c < VALUE_MATE_IN_PLY_MAX c"
    and "VALUE_MATE_IN_PLY_MAX c \<le> VALUE_NONE c"
  shows "(v \<ge> VALUE_MATE_IN_PLY_MAX c \<longrightarrow> value_to_tt c v ply = v + ply)
       \<and> (v \<le> VALUE_MATED_IN_PLY_MAX c \<longrightarrow> value_to_tt c v ply = v - ply)
       \<and> (VALUE_MATED_IN_PLY_MAX c < v \<and> v < VALUE_MATE_IN_PLY_MAX c
            \<longrightarrow> value_to_tt c v ply = v)
       \<and> value_to_tt c (VALUE_NONE c) ply = VALUE_NONE c + ply
       \<and> value_from_tt c (VALUE_NONE c) ply = VALUE_NONE c"
  using assms by (simp add: value_to_tt_def value_from_tt_def)

theorem C2_value_to_tt_witness:
  "value_to_tt sf_consts 29990 4 = 29994
   \<and> value_to_tt sf_consts (- 29990) 4 = - 29994
   \<and> value_to_tt sf_consts 57 4 = 57
   \<and> value_to_tt sf_consts (VALUE_NONE sf_consts) 4 = 30006
   \<and> value_from_tt sf_consts (VALUE_NONE sf_consts) 4 = 30002"
proof -
  have a: "VALUE_MATED_IN_PLY_MAX sf_consts < VALUE_MATE_IN_PLY_MAX sf_consts"
    by (simp add: sf_consts_simps)
  have b: "VALUE_MATE_IN_PLY_MAX sf_consts \<le> VALUE_NONE sf_consts"
    by (simp add: sf_consts_simps)
  show ?thesis
    using C2_value_to_tt [OF a b, of 29990 4] C2_value_to_tt [OF a b, of "- 29990" 4]
      C2_value_to_tt [OF a b, of 57 4]
    by (simp add: sf_consts_simps)
qed

section \<open>Properties of \<^verbatim>\<open>ok_to_use_TT()\<close>\<close>

lemma type_and_LOWER:
  "type_and t VALUE_TYPE_LOWER = (t = VALUE_TYPE_LOWER \<or> t = VALUE_TYPE_EXACT)"
  by (cases t) (simp_all add: type_and_def)

lemma type_and_UPPER:
  "type_and t VALUE_TYPE_UPPER = (t = VALUE_TYPE_UPPER \<or> t = VALUE_TYPE_EXACT)"
  by (cases t) (simp_all add: type_and_def)

text \<open>One direction of the spec's wording holds: what the code accepts, the spec accepts.\<close>

lemma ok_to_use_TT_imp_spec:
  "ok_to_use_TT c tte depth beta ply \<Longrightarrow> ok_to_use_TT_spec c tte depth beta ply"
  by (auto simp add: ok_to_use_TT_def ok_to_use_TT_spec_def outside_ordinary_band_def Let_def)

text \<open>
  Claim C3, as stated: the function returns true exactly when the depth suffices or the
  score is outside the ordinary band, and the bound is on the correct side of beta. An
  upper bound of too little depth whose score \<open>29947\<close> is a mate score below
  \<open>beta = 29960\<close> meets that description, and the function returns false: the code
  compares the score with \<^verbatim>\<open>Max(VALUE_MATE_IN_PLY_MAX, beta)\<close>, not with the band's edge.
\<close>

theorem C3_ok_to_use_TT_counterexample:
  "ok_to_use_TT_spec sf_consts
     \<lparr>tte_value = 29950, tte_type = VALUE_TYPE_UPPER, tte_depth = 0, tte_move = 0,
      tte_static_value = 0, tte_static_value_margin = 0\<rparr> 10 29960 3
   \<and> \<not> ok_to_use_TT sf_consts
     \<lparr>tte_value = 29950, tte_type = VALUE_TYPE_UPPER, tte_depth = 0, tte_move = 0,
      tte_static_value = 0, tte_static_value_margin = 0\<rparr> 10 29960 3"
  by (simp add: ok_to_use_TT_def ok_to_use_TT_spec_def outside_ordinary_band_def
      value_from_tt_def type_and_def sf_consts_simps)

text \<open>
  Claim C3, amended: \<^verbatim>\<open>ok_to_use_TT()\<close> returns true exactly when the bound is on the
  correct side of beta and, on that side, the depth suffices or the score is a mate
  score: a lower bound with \<open>v \<ge> beta\<close> and (depth sufficient or
  \<open>v \<ge> VALUE_MATE_IN_PLY_MAX\<close>), or an upper bound with \<open>v < beta\<close> and (depth
  sufficient or \<open>v < VALUE_MATED_IN_PLY_MAX\<close>), \<open>v\<close> being the ply-adjusted score.
\<close>

theorem C3_ok_to_use_TT:
  "ok_to_use_TT c tte depth beta ply =
     (let v = value_from_tt c (tte_value tte) ply in
        (type_and (tte_type tte) VALUE_TYPE_LOWER \<and> v \<ge> beta
         \<and> (tte_depth tte \<ge> depth \<or> v \<ge> VALUE_MATE_IN_PLY_MAX c))
      \<or> (type_and (tte_type tte) VALUE_TYPE_UPPER \<and> v < beta
         \<and> (tte_depth tte \<ge> depth \<or> v < VALUE_MATED_IN_PLY_MAX c)))"
  by (auto simp add: ok_to_use_TT_def Let_def)

theorem C3_ok_to_use_TT_witness:
  "ok_to_use_TT sf_consts
     \<lparr>tte_value = 29950, tte_type = VALUE_TYPE_LOWER, tte_depth = 0, tte_move = 0,
      tte_static_value = 0, tte_static_value_margin = 0\<rparr> 10 500 3
   \<and> \<not> ok_to_use_TT sf_consts
     \<lparr>tte_value = 700, tte_type = VALUE_TYPE_LOWER, tte_depth = 0, tte_move = 0,
      tte_static_value = 0, tte_static_value_margin = 0\<rparr> 10 500 3
   \<and> ok_to_use_TT sf_consts
     \<lparr>tte_value = 300, tte_type = VALUE_TYPE_EXACT, tte_depth = 12, tte_move = 0,
      tte_static_value = 0, tte_static_value_margin = 0\<rparr> 10 500 3"
  using
    C3_ok_to_use_TT [of sf_consts
      "\<lparr>tte_value = 29950, tte_type = VALUE_TYPE_LOWER, tte_depth = 0, tte_move = 0,
        tte_static_value = 0, tte_static_value_margin = 0\<rparr>" 10 500 3]
    C3_ok_to_use_TT [of sf_consts
      "\<lparr>tte_value = 700, tte_type = VALUE_TYPE_LOWER, tte_depth = 0, tte_move = 0,
        tte_static_value = 0, tte_static_value_margin = 0\<rparr>" 10 500 3]
    C3_ok_to_use_TT [of sf_consts
      "\<lparr>tte_value = 300, tte_type = VALUE_TYPE_EXACT, tte_depth = 12, tte_move = 0,
        tte_static_value = 0, tte_static_value_margin = 0\<rparr>" 10 500 3]
  by (simp add: value_from_tt_def type_and_def sf_consts_simps)

section \<open>Properties of the main search\<close>

subsection \<open>Razoring\<close>

lemma razoring_only_under_guard:
  "\<not> razoring_guard c has_pawn_on_7th n \<Longrightarrow> razoring c qs has_pawn_on_7th n = ([], None)"
  by (simp add: razoring_def)

text \<open>
  Claim C4, as stated: every non-PV node of depth below the razor depth, not in check,
  without TT move and with refined value plus margin below beta runs the zero-window
  quiescence search and returns its value when that is below \<open>rbeta\<close>. The node below
  meets all of that, and the quiescence search would return \<open>-5000 < rbeta = 392\<close>, but
  the side to move has a pawn on the seventh rank: no quiescence search is run and the
  step does not return.
\<close>

theorem C4_razoring_counterexample:
  "(let n = (search_enter sf_consts False False False 999 1000 6 False 3 MOVE_NONE)
              \<lparr>sn_refinedValue := 0\<rparr>;
        qs = (\<lambda>alpha beta depth. - 5000);
        rbeta = sn_beta n - razor_margin (sn_depth n)
    in \<not> sn_PvNode n \<and> sn_depth n < RazorDepth sf_consts \<and> \<not> sn_inCheck n
       \<and> sn_ttMove n = MOVE_NONE
       \<and> sn_refinedValue n + razor_margin (sn_depth n) < sn_beta n
       \<and> qs (rbeta - 1) rbeta DEPTH_ZERO < rbeta
       \<and> razoring sf_consts qs True n = ([], None))"
  by (simp add: Let_def search_enter_def razoring_def razoring_guard_def RazorDepth_def
      razor_margin_def sf_consts_simps MOVE_NONE_def DEPTH_ZERO_def)

text \<open>
  Claim C4, amended: at a non-PV node of depth below the razor depth, not in check,
  without TT move, with refined value plus \<open>razor_margin(depth)\<close> below beta, and
  moreover without excluded move, with \<open>|beta|\<close> below \<^verbatim>\<open>VALUE_MATE_IN_PLY_MAX\<close> and
  without a pawn of the side to move on the seventh rank, the search runs exactly one
  quiescence search, on the window \<open>(rbeta - 1, rbeta)\<close> at depth zero with
  \<open>rbeta = beta - razor_margin(depth)\<close>, and returns its value exactly when that is
  below \<open>rbeta\<close>. When one of the three further conditions fails, no quiescence search
  is run and the step does not return.
\<close>

theorem C4_razoring:
  assumes "\<not> sn_PvNode n"
    and "sn_depth n < RazorDepth c"
    and "\<not> sn_inCheck n"
    and "sn_ttMove n = MOVE_NONE"
    and "sn_refinedValue n + razor_margin (sn_depth n) < sn_beta n"
  shows "(let rbeta = sn_beta n - razor_margin (sn_depth n);
              v = qs (rbeta - 1) rbeta DEPTH_ZERO
          in (sn_excludedMove n = MOVE_NONE \<and> \<bar>sn_beta n\<bar> < VALUE_MATE_IN_PLY_MAX c
                \<and> \<not> has_pawn_on_7th
              \<longrightarrow> fst (razoring c qs has_pawn_on_7th n) = [(rbeta - 1, rbeta, DEPTH_ZERO)]
                  \<and> (v < rbeta \<longrightarrow> snd (razoring c qs has_pawn_on_7th n) = Some v)
                  \<and> (v \<ge> rbeta \<longrightarrow> snd (razoring c qs has_pawn_on_7th n) = None))
           \<and> (sn_excludedMove n \<noteq> MOVE_NONE \<or> \<bar>sn_beta n\<bar> \<ge> VALUE_MATE_IN_PLY_MAX c
                \<or> has_pawn_on_7th
              \<longrightarrow> razoring c qs has_pawn_on_7th n = ([], None)))"
  using assms by (auto simp add: razoring_def razoring_guard_def Let_def)

theorem C4_razoring_witness:
  "razoring sf_consts (\<lambda>alpha beta depth. - 5000) False
     ((search_enter sf_consts False False False 999 1000 6 False 3 MOVE_NONE)
        \<lparr>sn_refinedValue := 0\<rparr>)
   = ([(391, 392, 0)], Some (- 5000))"
proof -
  let ?n = "(search_enter sf_consts False False False 999 1000 6 False 3 MOVE_NONE)
              \<lparr>sn_refinedValue := 0\<rparr>"
  have 1: "\<not> sn_PvNode ?n" by (simp add: search_enter_def)
  have 2: "sn_depth ?n < RazorDepth sf_consts"
    by (simp add: search_enter_def RazorDepth_def sf_consts_simps)
  have 3: "\<not> sn_inCheck ?n" by (simp add: search_enter_def)
  have 4: "sn_ttMove ?n = MOVE_NONE" by (simp add: search_enter_def)
  have 5: "sn_refinedValue ?n + razor_margin (sn_depth ?n) < sn_beta ?n"
    by (simp add: search_enter_def razor_margin_def)
  have 6: "sn_excludedMove ?n = MOVE_NONE \<and> \<bar>sn_beta ?n\<bar> < VALUE_MATE_IN_PLY_MAX sf_consts
           \<and> \<not> False"
    by (simp add: search_enter_def sf_consts_simps)
  have 7: "sn_beta ?n - razor_margin (sn_depth ?n) = 392"
    by (simp add: search_enter_def razor_margin_def)
  show ?thesis
    using C4_razoring [OF 1 2 3 4 5, where qs = "\<lambda>alpha beta depth. - 5000"
        and has_pawn_on_7th = False] 6 7
    by (simp add: Let_def DEPTH_ZERO_def prod_eq_iff)
qed

subsection \<open>The move loop and step 19\<close>

text \<open>The loop writes neither the template flags nor what step 19 reads beside the counter.\<close>

lemma move_loop_keeps:
  "sn_SpNode (move_loop ms n) = sn_SpNode n
   \<and> sn_excludedMove (move_loop ms n) = sn_excludedMove n
   \<and> sn_oldAlpha (move_loop ms n) = sn_oldAlpha n
   \<and> sn_inCheck (move_loop ms n) = sn_inCheck n
   \<and> sn_ply (move_loop ms n) = sn_ply n"
proof (induction ms arbitrary: n)
  case Nil
  show ?case by simp
next
  case (Cons m ms)
  show ?case
    by (simp add: Let_def Cons.IH split: prod.splits)
qed

lemma move_loop_moveCount_mono: "sn_moveCount n \<le> sn_moveCount (move_loop ms n)"
proof (induction ms arbitrary: n)
  case Nil
  show ?case by simp
next
  case (Cons m ms)
  have step: "sn_moveCount n
      \<le> sn_moveCount (move_loop ms
           (n\<lparr>sn_moveCount := sn_moveCount n + 1, sn_alpha := a, sn_bestValue := b,
               sn_bestMove := bm\<rparr>))" for a b bm
    using Cons.IH [of "n\<lparr>sn_moveCount := sn_moveCount n + 1, sn_alpha := a,
      sn_bestValue := b, sn_bestMove := bm\<rparr>"] by simp
  show ?case
    using Cons.IH [of n] step by (simp add: Let_def split: prod.splits)
qed

lemma move_loop_counted:
  "1 \<le> sn_moveCount n \<Longrightarrow> sn_moveCount (move_loop ms n) \<noteq> 0"
  using move_loop_moveCount_mono [of n ms] by simp

text \<open>
  A counter still at zero after the loop means that no move got past the exclusion
  tests: the rest of the body never ran and the locals are as before the loop.
\<close>

lemma move_loop_untouched:
  "sn_moveCount n = 0 \<Longrightarrow> sn_moveCount (move_loop ms n) = 0 \<Longrightarrow> move_loop ms n = n"
proof (induction ms arbitrary: n)
  case Nil
  show ?case by simp
next
  case (Cons m ms)
  show ?case
    using Cons.prems Cons.IH [of n]
    by (auto simp add: Let_def move_loop_counted split: prod.splits if_splits)
qed

lemma move_loop_counts_sample:
  "sn_moveCount (move_loop [sample_picked]
     (search_enter sf_consts False False False 10 11 8 True 4 MOVE_NONE)) = 1
   \<and> search_moves sf_consts [sample_picked]
     (search_enter sf_consts False False False 10 11 8 True 4 MOVE_NONE) = 50"
  by (simp add: search_moves_def search_finish_def search_enter_def sample_picked_def
      sf_consts_simps MOVE_NONE_def Let_def)

text \<open>
  Claim C5: at a node that is no split point, when the move loop has counted no move
  (\<^verbatim>\<open>moveCount == 0\<close>), \<^verbatim>\<open>search()\<close> returns \<^verbatim>\<open>oldAlpha\<close> if a move was excluded,
  otherwise \<^verbatim>\<open>value_mated_in(ply)\<close> if the side to move is in check, otherwise
  \<^verbatim>\<open>VALUE_DRAW\<close>.
\<close>

theorem C5_no_moves:
  assumes "\<not> sn_SpNode n"
    and "sn_moveCount (move_loop ms n) = 0"
  shows "search_moves c ms n =
           (if sn_excludedMove n \<noteq> MOVE_NONE then sn_oldAlpha n
            else if sn_inCheck n then value_mated_in c (sn_ply n)
            else VALUE_DRAW)"
  using assms move_loop_keeps [of ms n]
  by (simp add: search_moves_def search_finish_def)

theorem C5_no_moves_witness:
  "search_moves sf_consts []
     (search_enter sf_consts False False False 10 11 8 True 4 MOVE_NONE) = - 29995
   \<and> search_moves sf_consts []
     (search_enter sf_consts False False False 10 11 8 False 4 MOVE_NONE) = 0
   \<and> search_moves sf_consts [sample_picked]
     (search_enter sf_consts False False False 10 11 8 True 4 77) = 10"
proof -
  have s: "\<not> sn_SpNode (search_enter sf_consts False False False 10 11 8 i 4 m)"
    for i m by (simp add: search_enter_def)
  have z: "sn_moveCount (move_loop []
      (search_enter sf_consts False False False 10 11 8 i 4 m)) = 0"
    for i m by (simp add: search_enter_def)
  have x: "sn_moveCount (move_loop [sample_picked]
      (search_enter sf_consts False False False 10 11 8 True 4 77)) = 0"
    by (simp add: search_enter_def sample_picked_def MOVE_NONE_def)
  show ?thesis
    using C5_no_moves [OF s z, where c = sf_consts and i1 = True and m1 = MOVE_NONE]
      C5_no_moves [OF s z, where c = sf_consts and i1 = False and m1 = MOVE_NONE]
      C5_no_moves [OF s x, where c = sf_consts]
    by (simp add: search_enter_def sf_consts_simps MOVE_NONE_def VALUE_DRAW_def)
qed

section \<open>Properties of the quiescence search\<close>

text \<open>
  In check, a move whose search does not score above \<^verbatim>\<open>-VALUE_INFINITE\<close> leaves the
  locals as they are, and so does a whole list of such moves.
\<close>

lemma qsearch_move_in_check_keeps:
  assumes "qi_inCheck q"
    and "qs_bestValue st = - VALUE_INFINITE c"
    and "\<forall>a b d. - qm_child m a b d \<le> - VALUE_INFINITE c"
  shows "qsearch_move c q m st = st"
proof -
  have "\<not> - qm_child m (- qi_beta q) (- qs_alpha st) (qi_depth q - ONE_PLY c)
            > qs_bestValue st"
    using assms(2) assms(3) [rule_format, of "- qi_beta q" "- qs_alpha st"
      "qi_depth q - ONE_PLY c"] by simp
  then show ?thesis
    using assms(1) by (simp add: qsearch_move_def Let_def)
qed

lemma qsearch_moves_in_check_keeps:
  assumes "qi_inCheck q"
    and "qs_bestValue st = - VALUE_INFINITE c"
    and "\<forall>m \<in> set ms. \<forall>a b d. - qm_child m a b d \<le> - VALUE_INFINITE c"
  shows "qsearch_moves c q ms st = st"
  using assms
proof (induction ms)
  case Nil
  show ?case by simp
next
  case (Cons m ms)
  have "qsearch_move c q m st = st"
    using Cons.prems by (intro qsearch_move_in_check_keeps) simp_all
  then show ?case using Cons by simp
qed

lemma qsearch_entry_in_check:
  assumes "qi_inCheck q" and "\<not> qi_is_draw q" and "qsearch_ply q \<le> PLY_MAX c"
    and "qsearch_tt_cutoff c q = None"
  shows "qsearch_entry c q =
     Inr \<lparr> qs_alpha = qi_alpha q, qs_bestValue = - VALUE_INFINITE c,
           qs_bestMove = MOVE_NONE, qs_mateKiller = qi_mateKiller q,
           qs_ttMove = fst (qsearch_tt_lookup c q), qs_tte = snd (qsearch_tt_lookup c q),
           qs_eval = VALUE_NONE c, qs_evalMargin = VALUE_NONE c,
           qs_futilityBase = - VALUE_INFINITE c, qs_enoughMaterial = False \<rparr>"
  using assms by (simp add: qsearch_entry_def qsearch_static_eval_def)

text \<open>
  Hence a node in check whose moves all fail to score above \<^verbatim>\<open>-VALUE_INFINITE\<close> is a
  mate.
\<close>

lemma qsearch_in_check_nothing_raised:
  assumes "qi_inCheck q" and "\<not> qi_is_draw q" and "qsearch_ply q \<le> PLY_MAX c"
    and "qsearch_tt_cutoff c q = None"
    and "\<forall>m \<in> set (qi_moves q). \<forall>a b d. - qm_child m a b d \<le> - VALUE_INFINITE c"
  shows "qsearch c q = value_mated_in c (qsearch_ply q)"
proof -
  let ?st = "\<lparr> qs_alpha = qi_alpha q, qs_bestValue = - VALUE_INFINITE c,
           qs_bestMove = MOVE_NONE, qs_mateKiller = qi_mateKiller q,
           qs_ttMove = fst (qsearch_tt_lookup c q), qs_tte = snd (qsearch_tt_lookup c q),
           qs_eval = VALUE_NONE c, qs_evalMargin = VALUE_NONE c,
           qs_futilityBase = - VALUE_INFINITE c, qs_enoughMaterial = False \<rparr>"
  have e: "qsearch_entry c q = Inr ?st"
    using assms(1-4) by (rule qsearch_entry_in_check)
  have "qsearch_moves c q (qi_moves q) ?st = ?st"
    using assms(1) _ assms(5) by (rule qsearch_moves_in_check_keeps) simp
  then show ?thesis
    using e assms(1) by (simp add: qsearch_def qsearch_exit_def)
qed

text \<open>
  Claim C6: a call of \<^verbatim>\<open>qsearch()\<close> with the side to move in check that is not cut
  short by a draw, by the ply limit or by the non-PV cutoff from the table reaches the
  move loop with \<^verbatim>\<open>bestValue\<close> at \<^verbatim>\<open>-VALUE_INFINITE\<close>; when the loop leaves
  \<^verbatim>\<open>bestValue\<close> there, and in particular when there is no move at all, the call
  returns \<^verbatim>\<open>value_mated_in(ply)\<close>.
\<close>

theorem C6_qsearch_checkmate:
  assumes "qi_inCheck q" and "\<not> qi_is_draw q" and "qsearch_ply q \<le> PLY_MAX c"
    and "qsearch_tt_cutoff c q = None"
  shows "\<exists>st. qsearch_entry c q = Inr st \<and> qs_bestValue st = - VALUE_INFINITE c
           \<and> (qs_bestValue (qsearch_moves c q (qi_moves q) st) = - VALUE_INFINITE c
                \<longrightarrow> qsearch c q = value_mated_in c (qsearch_ply q))
           \<and> (qi_moves q = [] \<longrightarrow> qsearch c q = value_mated_in c (qsearch_ply q))"
  using assms qsearch_entry_in_check [OF assms]
  by (simp add: qsearch_def qsearch_exit_def)

theorem C6_qsearch_checkmate_witness:
  "qsearch sf_consts sample_qnode = - 29994"
proof -
  have 1: "qi_inCheck sample_qnode" by (simp add: sample_qnode_def)
  have 2: "\<not> qi_is_draw sample_qnode" by (simp add: sample_qnode_def)
  have 3: "qsearch_ply sample_qnode \<le> PLY_MAX sf_consts"
    by (simp add: qsearch_ply_def sample_qnode_def sf_consts_simps)
  have 4: "qsearch_tt_cutoff sf_consts sample_qnode = None"
    by (simp add: qsearch_tt_cutoff_def qsearch_tt_lookup_def tt_move_of_def
        drop_mismatched_def sample_qnode_def)
  have 5: "qi_moves sample_qnode = []" by (simp add: sample_qnode_def)
  have 6: "value_mated_in sf_consts (qsearch_ply sample_qnode) = - 29994"
    by (simp add: qsearch_ply_def sample_qnode_def sf_consts_simps)
  show ?thesis
    using C6_qsearch_checkmate [OF 1 2 3 4] 5 6 by auto
qed

section \<open>An entry whose static value does not fit the in-check status\<close>

lemma search_tt_lookup_mismatch:
  assumes "static_value_mismatch c (sn_inCheck n) e"
  shows "search_tt_lookup c pl rml0 (Some e) n =
           n\<lparr>sn_ttMove := (if sn_Root n then rml0 else fst (tt_move_of pl (Some e))),
              sn_tte := None\<rparr>"
  using assms
  by (simp add: search_tt_lookup_def tt_move_of_def drop_mismatched_def)

lemma search_tt_lookup_miss:
  "search_tt_lookup c pl rml0 None n =
     n\<lparr>sn_ttMove := (if sn_Root n then rml0 else MOVE_NONE), sn_tte := None\<rparr>"
  by (simp add: search_tt_lookup_def tt_move_of_def drop_mismatched_def)

lemma search_after_lookup_no_entry:
  "(case search_tt_cutoff c (n\<lparr>sn_ttMove := m, sn_tte := None\<rparr>) of
      Inl v \<Rightarrow> Inl v
    | Inr n' \<Rightarrow> Inr (search_static_eval c ev n'))
   = Inr ((search_static_eval c ev (n\<lparr>sn_tte := None\<rparr>))\<lparr>sn_ttMove := m\<rparr>)"
  by (simp add: search_tt_cutoff_def search_static_eval_def)

lemma qsearch_tt_lookup_mismatch:
  assumes "qi_probe q = Some e" and "static_value_mismatch c (qi_inCheck q) e"
  shows "snd (qsearch_tt_lookup c q) = None"
  using assms
  by (simp add: qsearch_tt_lookup_def tt_move_of_def drop_mismatched_def)

lemma qsearch_static_eval_ttMove:
  "qsearch_static_eval c q m None =
     map_sum id (\<lambda>st. st\<lparr>qs_ttMove := m\<rparr>) (qsearch_static_eval c q MOVE_NONE None)"
  by (simp add: qsearch_static_eval_def Let_def)

lemma qsearch_static_eval_probe:
  "qsearch_static_eval c (q\<lparr>qi_probe := p\<rparr>) m t = qsearch_static_eval c q m t"
  by (cases t) (simp_all add: qsearch_static_eval_def qsearch_ply_def)

lemma sample_entry_mismatch: "static_value_mismatch sf_consts False sample_entry"
  by (simp add: static_value_mismatch_def sample_entry_def)

text \<open>
  Claim C9, as stated: a hit whose static value does not fit the in-check status is
  treated as a miss. At a non-PV node out of check, the entry \<open>sample_entry\<close> carries
  no static value and the pseudo-legal move 77. Steps 4 and 5 of \<^verbatim>\<open>search()\<close> go on
  with \<^verbatim>\<open>ttMove = 77\<close> after the hit, with \<^verbatim>\<open>ttMove = MOVE_NONE\<close> after a miss:
  \<^verbatim>\<open>ttMove\<close> was taken from the entry before the entry was dropped.
\<close>

theorem C9_mismatch_counterexample:
  "static_value_mismatch sf_consts False sample_entry
   \<and> map_sum id sn_ttMove
       (search_probe sf_consts (\<lambda>m. True) MOVE_NONE (25, 3) (Some sample_entry)
          (search_enter sf_consts False False False 10 11 8 False 4 MOVE_NONE)) = Inr 77
   \<and> map_sum id sn_ttMove
       (search_probe sf_consts (\<lambda>m. True) MOVE_NONE (25, 3) None
          (search_enter sf_consts False False False 10 11 8 False 4 MOVE_NONE))
       = Inr MOVE_NONE"
proof -
  have m: "static_value_mismatch sf_consts False sample_entry"
    by (rule sample_entry_mismatch)
  have i: "static_value_mismatch sf_consts
      (sn_inCheck (search_enter sf_consts False False False 10 11 8 False 4 MOVE_NONE))
      sample_entry"
    using m by (simp add: search_enter_def)
  have r: "\<not> sn_Root (search_enter sf_consts False False False 10 11 8 False 4 MOVE_NONE)"
    by (simp add: search_enter_def)
  have t: "fst (tt_move_of (\<lambda>m. True) (Some sample_entry)) = 77"
    by (simp add: tt_move_of_def sample_entry_def MOVE_NONE_def)
  have h: "map_sum id sn_ttMove
       (search_probe sf_consts (\<lambda>m. True) MOVE_NONE (25, 3) (Some sample_entry)
          (search_enter sf_consts False False False 10 11 8 False 4 MOVE_NONE)) = Inr 77"
    unfolding search_probe_def search_tt_lookup_mismatch [OF i]
      search_after_lookup_no_entry
    using r t by simp
  have n: "map_sum id sn_ttMove
       (search_probe sf_consts (\<lambda>m. True) MOVE_NONE (25, 3) None
          (search_enter sf_consts False False False 10 11 8 False 4 MOVE_NONE))
       = Inr MOVE_NONE"
    unfolding search_probe_def search_tt_lookup_miss search_after_lookup_no_entry
    using r by simp
  show ?thesis using m h n by simp
qed

lemma fst_tt_move_of:
  "fst (tt_move_of pl (Some e)) =
     (if tte_move e \<noteq> MOVE_NONE \<and> pl (tte_move e) then tte_move e else MOVE_NONE)"
  by (simp add: tt_move_of_def)

text \<open>
  Claim C9, amended: when the probed entry's static value does not fit the in-check
  status, \<^verbatim>\<open>search()\<close> and \<^verbatim>\<open>qsearch()\<close> drop the entry before the cutoff from the
  table, the reuse of its static value and the refinement by its bound: the table
  cuts nothing off, and both functions go on exactly as after a miss, with one
  difference: the move of the dropped entry, when it is a move and pseudo-legal, is
  the node's \<^verbatim>\<open>ttMove\<close> (at the root \<^verbatim>\<open>ttMove\<close> is the first root move in any case).
\<close>

theorem C9_mismatch_dropped:
  assumes "static_value_mismatch c (sn_inCheck n) e"
    and "qi_probe q = Some e'"
    and "static_value_mismatch c (qi_inCheck q) e'"
  shows "sn_tte (search_tt_lookup c pl root_move (Some e) n) = None
       \<and> sn_ttMove (search_tt_lookup c pl root_move (Some e) n) =
           (if sn_Root n then root_move
            else if tte_move e \<noteq> MOVE_NONE \<and> pl (tte_move e) then tte_move e
            else MOVE_NONE)
       \<and> search_probe c pl root_move ev (Some e) n =
           Inr ((search_static_eval c ev (n\<lparr>sn_tte := None\<rparr>))
                  \<lparr>sn_ttMove :=
                     (if sn_Root n then root_move
                      else if tte_move e \<noteq> MOVE_NONE \<and> pl (tte_move e) then tte_move e
                      else MOVE_NONE)\<rparr>)
       \<and> search_probe c pl root_move ev None n =
           Inr ((search_static_eval c ev (n\<lparr>sn_tte := None\<rparr>))
                  \<lparr>sn_ttMove := (if sn_Root n then root_move else MOVE_NONE)\<rparr>)
       \<and> snd (qsearch_tt_lookup c q) = None
       \<and> fst (qsearch_tt_lookup c q) =
           (if tte_move e' \<noteq> MOVE_NONE \<and> qi_move_is_pseudo_legal q (tte_move e')
            then tte_move e' else MOVE_NONE)
       \<and> qsearch_tt_cutoff c q = None
       \<and> qsearch_entry c q =
           map_sum id
             (\<lambda>st. st\<lparr>qs_ttMove :=
                        (if tte_move e' \<noteq> MOVE_NONE
                            \<and> qi_move_is_pseudo_legal q (tte_move e')
                         then tte_move e' else MOVE_NONE)\<rparr>)
             (qsearch_entry c (q\<lparr>qi_probe := None\<rparr>))
       \<and> fst (qsearch_tt_lookup c (q\<lparr>qi_probe := None\<rparr>)) = MOVE_NONE"
proof -
  let ?kept = "if sn_Root n then root_move
            else if tte_move e \<noteq> MOVE_NONE \<and> pl (tte_move e) then tte_move e
            else MOVE_NONE"
  let ?qkept = "if tte_move e' \<noteq> MOVE_NONE \<and> qi_move_is_pseudo_legal q (tte_move e')
            then tte_move e' else MOVE_NONE"
  have l: "search_tt_lookup c pl root_move (Some e) n
             = n\<lparr>sn_ttMove := ?kept, sn_tte := None\<rparr>"
    unfolding search_tt_lookup_mismatch [OF assms(1)] fst_tt_move_of by simp
  have s1: "sn_tte (search_tt_lookup c pl root_move (Some e) n) = None"
    unfolding l by simp
  have s2: "sn_ttMove (search_tt_lookup c pl root_move (Some e) n) = ?kept"
    unfolding l by simp
  have s3: "search_probe c pl root_move ev (Some e) n =
           Inr ((search_static_eval c ev (n\<lparr>sn_tte := None\<rparr>))\<lparr>sn_ttMove := ?kept\<rparr>)"
    unfolding search_probe_def l search_after_lookup_no_entry by simp
  have s4: "search_probe c pl root_move ev None n =
           Inr ((search_static_eval c ev (n\<lparr>sn_tte := None\<rparr>))
                  \<lparr>sn_ttMove := (if sn_Root n then root_move else MOVE_NONE)\<rparr>)"
    unfolding search_probe_def search_tt_lookup_miss search_after_lookup_no_entry
    by simp
  have q1: "snd (qsearch_tt_lookup c q) = None"
    using assms(2,3) by (rule qsearch_tt_lookup_mismatch)
  have q1': "fst (qsearch_tt_lookup c q) = ?qkept"
    using assms(2) by (simp add: qsearch_tt_lookup_def fst_tt_move_of split_beta)
  have q2: "qsearch_tt_cutoff c q = None"
    using q1 by (simp add: qsearch_tt_cutoff_def)
  have q0: "qsearch_tt_lookup c (q\<lparr>qi_probe := None\<rparr>) = (MOVE_NONE, None)"
    by (simp add: qsearch_tt_lookup_def tt_move_of_def drop_mismatched_def)
  have q02: "qsearch_tt_cutoff c (q\<lparr>qi_probe := None\<rparr>) = None"
    using q0 by (simp add: qsearch_tt_cutoff_def)
  have q3: "qsearch_entry c q =
           map_sum id (\<lambda>st. st\<lparr>qs_ttMove := ?qkept\<rparr>)
             (qsearch_entry c (q\<lparr>qi_probe := None\<rparr>))"
    unfolding qsearch_entry_def q2 q02 q1 q0 q1'
    using qsearch_static_eval_ttMove [of c q ?qkept]
    by (simp add: qsearch_static_eval_probe qsearch_ply_def)
  have q4: "fst (qsearch_tt_lookup c (q\<lparr>qi_probe := None\<rparr>)) = MOVE_NONE"
    using q0 by simp
  show ?thesis
    using s1 s2 s3 s4 q1 q1' q2 q3 q4 by (simp only: simp_thms)
qed

theorem C9_mismatch_dropped_witness:
  "sn_tte (search_tt_lookup sf_consts (\<lambda>m. True) MOVE_NONE (Some sample_entry)
      (search_enter sf_consts False False False 10 11 8 False 4 MOVE_NONE)) = None
   \<and> sn_ttMove (search_tt_lookup sf_consts (\<lambda>m. True) MOVE_NONE (Some sample_entry)
      (search_enter sf_consts False False False 10 11 8 False 4 MOVE_NONE)) = 77
   \<and> snd (qsearch_tt_lookup sf_consts
        (sample_qnode\<lparr>qi_inCheck := False, qi_probe := Some sample_entry\<rparr>)) = None
   \<and> fst (qsearch_tt_lookup sf_consts
        (sample_qnode\<lparr>qi_inCheck := False, qi_probe := Some sample_entry\<rparr>)) = 77
   \<and> qsearch_tt_cutoff sf_consts
        (sample_qnode\<lparr>qi_inCheck := False, qi_probe := Some sample_entry\<rparr>) = None
   \<and> qsearch_entry sf_consts
        (sample_qnode\<lparr>qi_inCheck := False, qi_probe := Some sample_entry\<rparr>) = Inl 25"
proof -
  let ?q = "sample_qnode\<lparr>qi_inCheck := False, qi_probe := Some sample_entry\<rparr>"
  let ?n = "search_enter sf_consts False False False 10 11 8 False 4 MOVE_NONE"
  have 1: "static_value_mismatch sf_consts (sn_inCheck ?n) sample_entry"
    using sample_entry_mismatch by (simp add: search_enter_def)
  have 2: "qi_probe ?q = Some sample_entry" by simp
  have 3: "static_value_mismatch sf_consts (qi_inCheck ?q) sample_entry"
    using sample_entry_mismatch by simp
  have 4: "qsearch_entry sf_consts (?q\<lparr>qi_probe := None\<rparr>) = Inl 25"
    by (simp add: qsearch_entry_def qsearch_tt_cutoff_def qsearch_tt_lookup_def
        tt_move_of_def drop_mismatched_def qsearch_static_eval_def qsearch_ply_def
        sample_qnode_def sf_consts_simps)
  have 5: "\<not> sn_Root ?n" by (simp add: search_enter_def)
  have 6: "tte_move sample_entry = 77" "qi_move_is_pseudo_legal ?q = (\<lambda>m. True)"
    by (simp_all add: sample_entry_def sample_qnode_def)
  show ?thesis
    using C9_mismatch_dropped [OF 1 2 3, where pl = "\<lambda>m. True" and root_move = MOVE_NONE]
      4 5 6
    by (simp add: MOVE_NONE_def)
qed

section \<open>Properties of the driver\<close>

subsection \<open>A root without legal moves\<close>

text \<open>
  Claim C7: with an empty root move list, \<^verbatim>\<open>id_loop()\<close> prints the line
  \<^verbatim>\<open>info depth 0 score\<close> with the score \<^verbatim>\<open>-VALUE_MATE\<close> when the side to move is in
  check and \<^verbatim>\<open>VALUE_DRAW\<close> otherwise, and returns \<^verbatim>\<open>MOVE_NONE\<close> with the ponder move
  \<^verbatim>\<open>MOVE_NONE\<close>; \<^verbatim>\<open>think()\<close>, unless it answered from the book before searching, then
  prints the statistics and \<^verbatim>\<open>bestmove\<close> with the move \<^verbatim>\<open>MOVE_NONE\<close> and no ponder
  move.
\<close>

theorem C7_no_legal_moves:
  assumes "rml = []" and "\<not> (OwnBook \<and> bookMove \<noteq> MOVE_NONE)"
  shows "id_loop c rml in_check deepening =
           ([Str ''info depth 0 score '',
             Value_to_uci (if in_check then - VALUE_MATE c else VALUE_DRAW), Endl],
            MOVE_NONE, MOVE_NONE)
       \<and> think c OwnBook bookMove rml in_check deepening =
           [Str ''info depth 0 score '',
            Value_to_uci (if in_check then - VALUE_MATE c else VALUE_DRAW), Endl,
            Str ''info'', Speed_to_uci, Endl,
            Str ''bestmove '', Move_to_uci MOVE_NONE, Endl]"
  using assms by (simp add: id_loop_def think_def)

theorem C7_no_legal_moves_witness:
  "think sf_consts False MOVE_NONE [] False ([Str ''unused''], 5, 6) =
     [Str ''info depth 0 score '', Value_to_uci 0, Endl,
      Str ''info'', Speed_to_uci, Endl, Str ''bestmove '', Move_to_uci 0, Endl]
   \<and> think sf_consts True MOVE_NONE [] True ([Str ''unused''], 5, 6) =
     [Str ''info depth 0 score '', Value_to_uci (- 30000), Endl,
      Str ''info'', Speed_to_uci, Endl, Str ''bestmove '', Move_to_uci 0, Endl]"
proof -
  have e: "([]::Move list) = []" by simp
  have b1: "\<not> (False \<and> MOVE_NONE \<noteq> MOVE_NONE)" by simp
  have b2: "\<not> (True \<and> MOVE_NONE \<noteq> MOVE_NONE)" by simp
  show ?thesis
    using C7_no_legal_moves [OF e b1, of sf_consts False "([Str ''unused''], 5, 6)"]
      C7_no_legal_moves [OF e b2, of sf_consts True "([Str ''unused''], 5, 6)"]
    by (simp add: sf_consts_simps VALUE_DRAW_def MOVE_NONE_def)
qed

subsection \<open>The aspiration window\<close>

lemma c_div_nonneg: "0 \<le> a \<Longrightarrow> 0 < b \<Longrightarrow> c_div a b = a div b"
  by (cases "a = 0") (simp_all add: c_div_def)

lemma round_up_8: "0 \<le> d \<Longrightarrow> is_rounded_up_to_8 d (c_div (d + 7) 8 * 8)"
proof -
  assume "0 \<le> d"
  then have "c_div (d + 7) 8 = (d + 7) div 8" by (simp add: c_div_nonneg)
  then show ?thesis unfolding is_rounded_up_to_8_def by presburger
qed

lemma clamp_min_max: "lo \<le> hi \<Longrightarrow> min (max x lo) hi = clamp x lo hi"
  by (simp add: clamp_def)

text \<open>
  Claim C8: with \<^verbatim>\<open>MultiPV == 1\<close> and \<^verbatim>\<open>depth >= 5\<close>, \<^verbatim>\<open>aspirationDelta\<close> is the sum
  of the last difference of iteration values and half the one before, in absolute
  values, clamped to \<open>[16, 24]\<close> and rounded up to the next multiple of 8; when the
  previous value is below \<^verbatim>\<open>VALUE_KNOWN_WIN\<close> in absolute value, alpha and beta are
  that value minus and plus the delta, clamped to \<^verbatim>\<open>-VALUE_INFINITE\<close> and
  \<^verbatim>\<open>VALUE_INFINITE\<close>; otherwise the window is \<^verbatim>\<open>(-VALUE_INFINITE, VALUE_INFINITE)\<close>.
\<close>

theorem C8_aspiration_window:
  assumes "MultiPV = 1" and "depth \<ge> 5"
  shows "(case aspiration_window c MultiPV depth bestValues w of
            (aspirationDelta, alpha, beta) \<Rightarrow>
              is_rounded_up_to_8
                (clamp (\<bar>bestValues (depth - 1) - bestValues (depth - 2)\<bar>
                        + \<bar>bestValues (depth - 2) - bestValues (depth - 3)\<bar> div 2) 16 24)
                aspirationDelta
              \<and> (\<bar>bestValues (depth - 1)\<bar> \<ge> VALUE_KNOWN_WIN c
                   \<longrightarrow> alpha = - VALUE_INFINITE c \<and> beta = VALUE_INFINITE c)
              \<and> (\<bar>bestValues (depth - 1)\<bar> < VALUE_KNOWN_WIN c
                   \<longrightarrow> alpha = max (bestValues (depth - 1) - aspirationDelta)
                                   (- VALUE_INFINITE c)
                       \<and> beta = min (bestValues (depth - 1) + aspirationDelta)
                                    (VALUE_INFINITE c)))"
proof -
  let ?x = "\<bar>bestValues (depth - 1) - bestValues (depth - 2)\<bar>
            + \<bar>bestValues (depth - 2) - bestValues (depth - 3)\<bar> div 2"
  have h: "c_div \<bar>bestValues (depth - 2) - bestValues (depth - 3)\<bar> 2
           = \<bar>bestValues (depth - 2) - bestValues (depth - 3)\<bar> div 2"
    by (simp add: c_div_nonneg)
  have cl: "min (max ?x 16) 24 = clamp ?x 16 24"
    by (simp add: clamp_min_max)
  have nn: "0 \<le> clamp ?x 16 24" by (simp add: clamp_def)
  show ?thesis
    using assms round_up_8 [OF nn]
    by (simp add: aspiration_window_def Let_def h cl)
qed

theorem C8_aspiration_window_witness:
  "aspiration_window sf_consts 1 6
     (\<lambda>i. if i = 5 then 40 else if i = 4 then 31 else 10) (0, - 30001, 30001)
     = (24, 16, 64)
   \<and> aspiration_window sf_consts 1 6
     (\<lambda>i. if i = 5 then 20000 else 19990) (0, - 30001, 30001)
     = (16, - 30001, 30001)"
proof -
  have v1: "aspiration_window sf_consts 1 6
     (\<lambda>i. if i = 5 then 40 else if i = 4 then 31 else 10) (0, - 30001, 30001)
     = (24, 16, 64)"
    by code_simp
  have v2: "aspiration_window sf_consts 1 6
     (\<lambda>i. if i = 5 then 20000 else 19990) (0, - 30001, 30001)
     = (16, - 30001, 30001)"
    by code_simp
  have m: "(1::int) = 1" by simp
  have d: "(6::int) \<ge> 5" by simp
  show ?thesis
    using
      C8_aspiration_window [OF m d, where c = sf_consts
        and bestValues = "\<lambda>i. if i = 5 then 40 else if i = 4 then 31 else 10"
        and w = "(0, - 30001, 30001)"]
      C8_aspiration_window [OF m d, where c = sf_consts
        and bestValues = "\<lambda>i. if i = 5 then 20000 else 19990"
        and w = "(0, - 30001, 30001)"] v1 v2
    by (simp only: simp_thms)
qed

text \<open>The window so computed has a positive delta and holds the previous value strictly inside.\<close>

lemma aspiration_window_contains_previous:
  assumes "MultiPV = 1" and "depth \<ge> 5"
    and "\<bar>bestValues (depth - 1)\<bar> < VALUE_INFINITE c"
  shows "(case aspiration_window c MultiPV depth bestValues w of
            (aspirationDelta, alpha, beta) \<Rightarrow>
              0 < aspirationDelta \<and> alpha < bestValues (depth - 1)
              \<and> bestValues (depth - 1) < beta)"
proof -
  define d where "d = min (max (\<bar>bestValues (depth - 1) - bestValues (depth - 2)\<bar>
                + c_div \<bar>bestValues (depth - 2) - bestValues (depth - 3)\<bar> 2) 16) 24"
  define r where "r = c_div (d + 7) 8 * 8"
  have d16: "16 \<le> d" unfolding d_def by simp
  then have "is_rounded_up_to_8 d r" unfolding r_def by (intro round_up_8) simp
  then have "d \<le> r" by (simp add: is_rounded_up_to_8_def)
  with d16 have r0: "0 < r" by simp
  have w: "aspiration_window c MultiPV depth bestValues w =
        (if \<bar>bestValues (depth - 1)\<bar> \<ge> VALUE_KNOWN_WIN c
         then (r, - VALUE_INFINITE c, VALUE_INFINITE c)
         else (r, max (bestValues (depth - 1) - r) (- VALUE_INFINITE c),
               min (bestValues (depth - 1) + r) (VALUE_INFINITE c)))"
    using assms(1,2) unfolding r_def d_def by (simp add: aspiration_window_def Let_def)
  show ?thesis
    unfolding w using r0 assms(3) by auto
qed

subsection \<open>The aspiration loop\<close>

text \<open>A raised \<^verbatim>\<open>StopRequest\<close> ends the loop with the value just returned.\<close>

lemma aspiration_loop_stop:
  assumes "root_search (as_searches st) (as_alpha st) (as_beta st) (depth * ONE_PLY c)
             = (score, True, draw_after)"
  shows "aspiration_loop c root_search depth LastValue bestValues (Suc fuel) st
           = Some (st\<lparr>as_value := score, as_StopRequest := True,
                      as_ValueDraw := draw_after, as_searches := Suc (as_searches st)\<rparr>)"
  using assms by (simp add: aspiration_step_def)

text \<open>
  Claim C10, as stated: a score of magnitude \<^verbatim>\<open>VALUE_KNOWN_WIN\<close> or more that fails
  high or low ends the loop without further window widening or re-search. From the
  window \<open>(84, 116)\<close> with delta 16, a root search returning \<open>15000\<close> ends the loop
  after that one search with the value \<open>15000\<close> accepted, and yet beta has been
  widened to \<open>132\<close> and the delta has grown to \<open>24\<close>: the widening comes before the
  loop's exit test.
\<close>

theorem C10_known_win_counterexample:
  "(case aspiration_loop sf_consts (\<lambda>k alpha beta d. (15000, False, 0)) 6
          (VALUE_NONE sf_consts) (\<lambda>i. 100) 1 sample_asp_state of
      Some st' \<Rightarrow>
        as_value st' = 15000 \<and> \<bar>as_value st'\<bar> \<ge> VALUE_KNOWN_WIN sf_consts
        \<and> as_value st' \<ge> as_beta sample_asp_state
        \<and> as_searches st' = 1
        \<and> as_beta st' \<noteq> as_beta sample_asp_state
        \<and> as_aspirationDelta st' \<noteq> as_aspirationDelta sample_asp_state
    | None \<Rightarrow> False)"
  by code_simp

text \<open>
  Claim C10, amended: when a root search that raised no \<^verbatim>\<open>StopRequest\<close> returns a
  score of magnitude \<^verbatim>\<open>VALUE_KNOWN_WIN\<close> or more, the aspiration loop ends after that
  search, whether the score lies inside the window, fails high or fails low: the value
  is accepted without a re-search. On a fail high beta, on a fail low alpha is still
  widened once by \<^verbatim>\<open>aspirationDelta\<close>, and \<^verbatim>\<open>aspirationDelta\<close> grows by half, before
  the loop ends. (The accepted value \<open>v\<close> is the returned score, or the previous
  iteration's value when \<^verbatim>\<open>LastValue\<close> is set and the two differ by one; the window
  of an iteration with \<^verbatim>\<open>LastValue\<close> set holds that previous value.)
\<close>

theorem C10_known_win_exit:
  assumes "root_search (as_searches st) (as_alpha st) (as_beta st) (depth * ONE_PLY c)
             = (score, False, draw_after)"
    and "\<bar>score\<bar> \<ge> VALUE_KNOWN_WIN c"
    and "LastValue \<noteq> VALUE_NONE c
           \<longrightarrow> as_alpha st < bestValues (depth - 1) \<and> bestValues (depth - 1) < as_beta st"
    and "v = (if LastValue \<noteq> VALUE_NONE c \<and> \<bar>score - bestValues (depth - 1)\<bar> = 1
              then bestValues (depth - 1) else score)"
  shows "\<exists>st'. aspiration_loop c root_search depth LastValue bestValues (Suc fuel) st
                = Some st'
           \<and> as_value st' = v
           \<and> as_searches st' = Suc (as_searches st)
           \<and> (v \<ge> as_beta st \<longrightarrow>
                 as_beta st' = min (as_beta st + as_aspirationDelta st) (VALUE_INFINITE c)
                 \<and> as_alpha st' = as_alpha st
                 \<and> as_aspirationDelta st'
                     = as_aspirationDelta st + c_div (as_aspirationDelta st) 2)
           \<and> (v < as_beta st \<and> v \<le> as_alpha st \<longrightarrow>
                 as_alpha st'
                   = max (as_alpha st - as_aspirationDelta st) (- VALUE_INFINITE c)
                 \<and> as_beta st' = as_beta st
                 \<and> as_aspirationDelta st'
                     = as_aspirationDelta st + c_div (as_aspirationDelta st) 2
                 \<and> as_AspirationFailLow st')
           \<and> (as_alpha st < v \<and> v < as_beta st \<longrightarrow>
                 as_alpha st' = as_alpha st \<and> as_beta st' = as_beta st
                 \<and> as_aspirationDelta st' = as_aspirationDelta st)"
proof -
  have exit: "(as_alpha st < v \<and> v < as_beta st) \<or> \<not> \<bar>v\<bar> < VALUE_KNOWN_WIN c"
    using assms(2,3,4) by (auto split: if_splits)
  consider (high) "v \<ge> as_beta st" | (low) "v < as_beta st" "v \<le> as_alpha st"
    | (inside) "as_alpha st < v" "v < as_beta st"
    by linarith
  then show ?thesis
  proof cases
    case high
    then have "\<not> \<bar>v\<bar> < VALUE_KNOWN_WIN c" using exit by simp
    then show ?thesis
      using high assms(1) assms(4) [symmetric]
      by (simp add: aspiration_step_def Let_def)
  next
    case low
    then have "\<not> \<bar>v\<bar> < VALUE_KNOWN_WIN c" using exit by simp
    then show ?thesis
      using low assms(1) assms(4) [symmetric]
      by (simp add: aspiration_step_def Let_def)
  next
    case inside
    then show ?thesis
      using assms(1) assms(4) [symmetric]
      by (simp add: aspiration_step_def Let_def)
  qed
qed

theorem C10_known_win_exit_witness:
  "aspiration_loop sf_consts (\<lambda>k alpha beta d. (15000, False, 0)) 6
          (VALUE_NONE sf_consts) (\<lambda>i. 100) 1 sample_asp_state
       = Some (sample_asp_state\<lparr>as_value := 15000, as_searches := 1, as_beta := 132,
                 as_aspirationDelta := 24\<rparr>)
   \<and> aspiration_loop sf_consts (\<lambda>k alpha beta d. (- 15000, False, 0)) 6
          (VALUE_NONE sf_consts) (\<lambda>i. 100) 1 sample_asp_state
       = Some (sample_asp_state\<lparr>as_value := - 15000, as_searches := 1, as_alpha := 68,
                 as_aspirationDelta := 24, as_AspirationFailLow := True\<rparr>)"
proof -
  have v1: "aspiration_loop sf_consts (\<lambda>k alpha beta d. (15000, False, 0)) 6
          (VALUE_NONE sf_consts) (\<lambda>i. 100) 1 sample_asp_state
       = Some (sample_asp_state\<lparr>as_value := 15000, as_searches := 1, as_beta := 132,
                 as_aspirationDelta := 24\<rparr>)"
    by code_simp
  have v2: "aspiration_loop sf_consts (\<lambda>k alpha beta d. (- 15000, False, 0)) 6
          (VALUE_NONE sf_consts) (\<lambda>i. 100) 1 sample_asp_state
       = Some (sample_asp_state\<lparr>as_value := - 15000, as_searches := 1, as_alpha := 68,
                 as_aspirationDelta := 24, as_AspirationFailLow := True\<rparr>)"
    by code_simp
  have s1: "(\<lambda>k alpha beta d. (15000::int, False, 0::int)) (as_searches sample_asp_state)
              (as_alpha sample_asp_state) (as_beta sample_asp_state)
              (6 * ONE_PLY sf_consts) = (15000, False, 0)" by simp
  have s2: "(\<lambda>k alpha beta d. (- 15000::int, False, 0::int))
              (as_searches sample_asp_state)
              (as_alpha sample_asp_state) (as_beta sample_asp_state)
              (6 * ONE_PLY sf_consts) = (- 15000, False, 0)" by simp
  have k1: "\<bar>15000::int\<bar> \<ge> VALUE_KNOWN_WIN sf_consts" by (simp add: sf_consts_simps)
  have k2: "\<bar>- 15000::int\<bar> \<ge> VALUE_KNOWN_WIN sf_consts" by (simp add: sf_consts_simps)
  have i: "VALUE_NONE sf_consts \<noteq> VALUE_NONE sf_consts
           \<longrightarrow> as_alpha sample_asp_state < (\<lambda>i. 100) ((6::int) - 1)
               \<and> (\<lambda>i. 100) ((6::int) - 1) < as_beta sample_asp_state" by simp
  have a1: "(15000::int) = (if VALUE_NONE sf_consts \<noteq> VALUE_NONE sf_consts
                    \<and> \<bar>15000 - (\<lambda>i. 100) ((6::int) - 1)\<bar> = 1
              then (\<lambda>i. 100) ((6::int) - 1) else 15000)" by simp
  have a2: "(- 15000::int) = (if VALUE_NONE sf_consts \<noteq> VALUE_NONE sf_consts
                    \<and> \<bar>- 15000 - (\<lambda>i. 100) ((6::int) - 1)\<bar> = 1
              then (\<lambda>i. 100) ((6::int) - 1) else - 15000)" by simp
  note t1 = C10_known_win_exit [where root_search = "\<lambda>k alpha beta d. (15000, False, 0)"
      and st = sample_asp_state and depth = 6 and c = sf_consts and score = 15000
      and draw_after = 0 and LastValue = "VALUE_NONE sf_consts"
      and bestValues = "\<lambda>i. 100" and v = 15000 and fuel = 0, OF s1 k1 i a1]
  note t2 = C10_known_win_exit [where root_search = "\<lambda>k alpha beta d. (- 15000, False, 0)"
      and st = sample_asp_state and depth = 6 and c = sf_consts and score = "- 15000"
      and draw_after = 0 and LastValue = "VALUE_NONE sf_consts"
      and bestValues = "\<lambda>i. 100" and v = "- 15000" and fuel = 0, OF s2 k2 i a2]
  show ?thesis
    using t1 t2 v1 v2 by (simp only: simp_thms)
qed

end
